theory Spec2Isabelle
  imports Complex_Main
begin

section \<open>Data model (src/types/project.ts, src/core/browser.ts)\<close>

text \<open>
  JavaScript strings are modelled as \<^typ>\<open>string\<close>, one \<^typ>\<open>char\<close> per UTF-16 code
  unit, which covers the code units 0..255. Times are integers (milliseconds), positions
  and sizes are reals (percent of the viewport). An optional field \<open>f?: T\<close> is a
  \<open>T option\<close>.
\<close>

datatype StepAction = Navigate | Click | Type | Wait | Scroll | Hover | Screenshot

datatype HighlightType = Circle | Rectangle | Arrow | Pulse

datatype TargetHighlightType = TPulse | TGlow | TArrow | TNone

record StepHighlight =
  sh_x :: real
  sh_y :: real
  sh_type :: HighlightType

record AutomationStep =
  as_id :: string
  as_action :: StepAction
  as_selector :: "string option"
  as_value :: "string option"
  as_description :: string
  as_narration :: string
  as_waitAfter :: "int option"
  as_waitForSelector :: "string option"
  as_highlight :: "StepHighlight option"

record StepTimestamp =
  stepId :: string
  startTime :: int
  endTime :: int

record SubtitleEntry =
  sub_id :: string
  sub_start :: int
  sub_end :: int
  sub_text :: string

record ElementInfo =
  ei_tagName :: string
  ei_fieldName :: string
  ei_fieldType :: "string option"
  ei_action :: string
  ei_value :: "string option"
  ei_selector :: string

record TooltipTranslation =
  tt_fieldName :: string
  tt_actionDescription :: string

record HighlightEntry =
  hl_id :: string
  hl_start :: int
  hl_end :: int
  hl_x :: real
  hl_y :: real
  hl_width :: "real option"
  hl_height :: "real option"
  hl_type :: HighlightType
  hl_color :: "string option"
  hl_label :: "string option"
  hl_elementInfo :: "ElementInfo option"
  hl_translations :: "(string \<times> TooltipTranslation) list option"
  hl_screenshotFile :: "string option"

datatype QuestionType = MultipleChoice | TrueFalse | ClickTargetQuestion

datatype Answer = AnswerString string | AnswerNumber int

record QuestionOption =
  qo_id :: string
  qo_text :: string

record QuestionFeedback =
  qf_correct :: string
  qf_incorrect :: string

text \<open>\<open>Omit<QuestionEntry, 'id'>\<close>: a question as the caller supplies it.\<close>

record QuestionInput =
  q_at :: int
  q_pauseVideo :: bool
  q_question :: string
  q_type :: QuestionType
  q_options :: "QuestionOption list option"
  q_correctAnswer :: Answer
  q_feedback :: "QuestionFeedback option"

record QuestionEntry = QuestionInput +
  q_id :: string

record ChapterEntry =
  ch_title :: string
  ch_startTime :: int

datatype GeneratedBy = AI | Manual

record SummaryLayer =
  keyPoints :: "string list"
  chapters :: "ChapterEntry list"
  generatedBy :: GeneratedBy

record ClickTarget =
  ct_x :: real
  ct_y :: real
  ct_width :: real
  ct_height :: real
  ct_highlightType :: "TargetHighlightType option"
  ct_highlightColor :: "string option"
  ct_tolerance :: "real option"

record PlaySegment =
  ps_start :: int
  ps_end :: int

record OnCorrect =
  oc_feedback :: "string option"
  oc_autoAdvance :: "bool option"
  oc_playSegment :: "PlaySegment option"

record OnIncorrect =
  oi_feedback :: "string option"
  oi_showHint :: "bool option"
  oi_maxAttempts :: "nat option"

record Scoring =
  sc_points :: int
  sc_timeBonus :: "bool option"
  sc_penaltyPerWrongClick :: "int option"

record InteractiveStep =
  is_id :: string
  is_order :: nat
  is_instruction :: string
  is_hint :: "string option"
  is_target :: ClickTarget
  is_onCorrect :: "OnCorrect option"
  is_onIncorrect :: "OnIncorrect option"
  is_scoring :: "Scoring option"

record VideoLayer =
  v_src :: string
  v_width :: nat
  v_height :: nat

record AudioLayer =
  a_src :: string
  a_volume :: real

record ProjectLayers =
  video :: VideoLayer
  audio :: AudioLayer
  subtitles :: "SubtitleEntry list"
  highlights :: "HighlightEntry list"
  questions :: "QuestionEntry list"
  summary :: "SummaryLayer option"

record Project =
  p_id :: string
  p_title :: string
  p_description :: string
  p_targetUrl :: string
  p_duration :: int
  p_createdAt :: string
  p_layers :: ProjectLayers
  p_interactiveSteps :: "InteractiveStep list"
  p_defaultLanguage :: string
  p_availableLanguages :: "string list"

section \<open>The assembler (src/core/assembler.ts)\<close>

record AssemblerInput =
  in_title :: string
  in_description :: string
  in_targetUrl :: string
  in_videoPath :: string
  in_audioPath :: "string option"
  in_steps :: "AutomationStep list"
  in_timestamps :: "StepTimestamp list"
  in_questions :: "QuestionInput list option"
  in_generateSummary :: "bool option"
  in_autoHighlights :: "HighlightEntry list option"
  in_defaultLanguage :: "string option"
  in_availableLanguages :: "string list option"

record AssemblerOutput =
  project :: Project
  outputDir :: string

subsection \<open>String helpers\<close>

text \<open>\<open>String.prototype.toLowerCase\<close> on the code units 0..255: A-Z and the
  accented capitals U+00C0..U+00DE (U+00D7, the multiplication sign, apart) move up by 32.\<close>

definition lowerChar :: "char \<Rightarrow> char" where
  "lowerChar c =
     (let n = (of_char c :: nat)
      in if (65 \<le> n \<and> n \<le> 90) \<or> (192 \<le> n \<and> n \<le> 222 \<and> n \<noteq> 215)
         then char_of (n + 32) else c)"

definition toLowerCase :: "string \<Rightarrow> string" where
  "toLowerCase s = map lowerChar s"

text \<open>The decimal digits of a number, as a template literal prints an index.\<close>

fun showNat :: "nat \<Rightarrow> string" where
  "showNat n =
     (if n < 10 then [char_of (48 + n)]
      else showNat (n div 10) @ [char_of (48 + n mod 10)])"

declare showNat.simps [simp del]

text \<open>\<open>Array.prototype.find\<close>: the first element that satisfies the predicate.\<close>

fun findTimestamp :: "StepTimestamp list \<Rightarrow> string \<Rightarrow> StepTimestamp option" where
  "findTimestamp [] sid = None"
| "findTimestamp (t # ts) sid = (if stepId t = sid then Some t else findTimestamp ts sid)"

subsection \<open>generateSubtitles\<close>

fun subtitlesLoop ::
  "AutomationStep list \<Rightarrow> StepTimestamp list \<Rightarrow> SubtitleEntry list \<Rightarrow> SubtitleEntry list" where
  "subtitlesLoop [] ts acc = acc"
| "subtitlesLoop (step # rest) ts acc =
     (case findTimestamp ts (as_id step) of
        Some timestamp \<Rightarrow>
          if as_narration step \<noteq> []
          then subtitlesLoop rest ts
                 (acc @ [\<lparr>sub_id = ''subtitle-'' @ as_id step,
                          sub_start = startTime timestamp,
                          sub_end = endTime timestamp,
                          sub_text = as_narration step\<rparr>])
          else subtitlesLoop rest ts acc
      | None \<Rightarrow> subtitlesLoop rest ts acc)"

definition generateSubtitles :: "AutomationStep list \<Rightarrow> StepTimestamp list \<Rightarrow> SubtitleEntry list" where
  "generateSubtitles steps ts = subtitlesLoop steps ts []"

subsection \<open>generateHighlights\<close>

fun highlightsLoop ::
  "AutomationStep list \<Rightarrow> StepTimestamp list \<Rightarrow> HighlightEntry list \<Rightarrow> HighlightEntry list" where
  "highlightsLoop [] ts acc = acc"
| "highlightsLoop (step # rest) ts acc =
     (case as_highlight step of
        Some h \<Rightarrow>
          (case findTimestamp ts (as_id step) of
             Some timestamp \<Rightarrow>
               highlightsLoop rest ts
                 (acc @ [\<lparr>hl_id = ''highlight-'' @ as_id step,
                          hl_start = startTime timestamp,
                          hl_end = endTime timestamp,
                          hl_x = sh_x h,
                          hl_y = sh_y h,
                          hl_width = Some 5,
                          hl_height = Some 5,
                          hl_type = sh_type h,
                          hl_color = None,
                          hl_label = None,
                          hl_elementInfo = None,
                          hl_translations = None,
                          hl_screenshotFile = None\<rparr>])
           | None \<Rightarrow> highlightsLoop rest ts acc)
      | None \<Rightarrow> highlightsLoop rest ts acc)"

definition generateHighlights :: "AutomationStep list \<Rightarrow> StepTimestamp list \<Rightarrow> HighlightEntry list" where
  "generateHighlights steps ts = highlightsLoop steps ts []"

subsection \<open>generateSummary\<close>

definition generateSummary :: "AutomationStep list \<Rightarrow> StepTimestamp list \<Rightarrow> SummaryLayer" where
  "generateSummary steps ts =
     \<lparr>keyPoints = map as_description (filter (\<lambda>s. as_action s \<noteq> Wait) steps),
      chapters =
        map (\<lambda>step.
               \<lparr>ch_title = as_description step,
                ch_startTime =
                  (case findTimestamp ts (as_id step) of
                     Some timestamp \<Rightarrow> startTime timestamp
                   | None \<Rightarrow> 0)\<rparr>)
            (filter (\<lambda>s. as_action s \<in> set [Navigate, Click]) steps),
      generatedBy = AI\<rparr>"

subsection \<open>generateInteractiveSteps\<close>

text \<open>The body of the \<open>forEach\<close> callback once both guards have passed: the entry pushed
  for \<open>step\<close> (whose highlight is \<open>h\<close>) when the counter stands at \<open>order\<close>. The
  timestamp the source looks up here is never used.\<close>

definition interactiveEntry :: "AutomationStep \<Rightarrow> StepHighlight \<Rightarrow> nat \<Rightarrow> InteractiveStep" where
  "interactiveEntry step h order =
     \<lparr>is_id = ''interactive-'' @ as_id step,
      is_order = order,
      is_instruction =
        (if as_narration step \<noteq> [] then as_narration step else as_description step),
      is_hint = Some (''Look for the '' @ toLowerCase (as_description step)),
      is_target =
        \<lparr>ct_x = sh_x h,
         ct_y = sh_y h,
         ct_width = 10,
         ct_height = 8,
         ct_highlightType = Some (if sh_type h = Pulse then TPulse else TGlow),
         ct_highlightColor = None,
         ct_tolerance = Some 15\<rparr>,
      is_onCorrect =
        Some \<lparr>oc_feedback = Some ''Great job!'', oc_autoAdvance = Some True,
              oc_playSegment = None\<rparr>,
      is_onIncorrect =
        Some \<lparr>oi_feedback = Some ''Not quite, try again.'', oi_showHint = Some True,
              oi_maxAttempts = Some 3\<rparr>,
      is_scoring =
        Some \<lparr>sc_points = 10, sc_timeBonus = None, sc_penaltyPerWrongClick = Some 2\<rparr>\<rparr>"

text \<open>The \<open>forEach\<close> loop: \<open>acc\<close> is the array pushed to, \<open>order\<close> the counter.\<close>

fun interactiveLoop ::
  "AutomationStep list \<Rightarrow> StepTimestamp list \<Rightarrow> InteractiveStep list \<Rightarrow> nat \<Rightarrow> InteractiveStep list" where
  "interactiveLoop [] ts acc order = acc"
| "interactiveLoop (step # rest) ts acc order =
     (if as_action step \<notin> set [Click, Type] then interactiveLoop rest ts acc order
      else case as_highlight step of
             None \<Rightarrow> interactiveLoop rest ts acc order
           | Some h \<Rightarrow>
               interactiveLoop rest ts (acc @ [interactiveEntry step h order]) (order + 1))"

definition generateInteractiveSteps ::
  "AutomationStep list \<Rightarrow> StepTimestamp list \<Rightarrow> InteractiveStep list" where
  "generateInteractiveSteps steps ts = interactiveLoop steps ts [] 0"

text \<open>The steps that pass both guards of the loop.\<close>

definition isInteractive :: "AutomationStep \<Rightarrow> bool" where
  "isInteractive s = (as_action s \<in> {Click, Type} \<and> as_highlight s \<noteq> None)"

subsection \<open>assembleProject\<close>

text \<open>
  What \<open>assembleProject\<close> takes from outside its arguments: the identifier \<open>uuid()\<close>
  returns, the string \<open>new Date().toISOString()\<close> returns, \<open>path.join\<close>, the path of
  the player page beside the module (\<open>fixedPlayerPath\<close>, derived from \<open>import.meta.url\<close>),
  \<open>process.cwd()\<close>, and the file system: what \<open>fs.existsSync\<close> answers for a path, and
  for each of \<open>fs.mkdirSync\<close>, \<open>fs.copyFileSync\<close> and \<open>fs.writeFileSync\<close> whether the call
  on given paths throws, and which exception (\<open>None\<close> when it returns). Every call of the
  source on the file system is a point where the run may end with the exception thrown.
  The answers depend on the paths only, and the files written are not part of the model:
  what is modelled is the value returned or the exception thrown.
\<close>

datatype fs_error = FsError string

record Env =
  uuid :: string
  nowISO :: string
  pathJoin :: "string \<Rightarrow> string \<Rightarrow> string"
  playerPath :: string
  cwd :: string
  existsSync :: "string \<Rightarrow> bool"
  mkdirSync :: "string \<Rightarrow> fs_error option"
  copyFileSync :: "string \<Rightarrow> string \<Rightarrow> fs_error option"
  writeFileSync :: "string \<Rightarrow> fs_error option"

definition addQuestionIds :: "QuestionInput list \<Rightarrow> QuestionEntry list" where
  "addQuestionIds qs =
     map (\<lambda>(q, i). QuestionInput.extend q (QuestionEntry.fields (''question-'' @ showNat i)))
         (zip qs [0..<length qs])"

definition assembleProject :: "Env \<Rightarrow> AssemblerInput \<Rightarrow> string \<Rightarrow> fs_error + AssemblerOutput" where
  "assembleProject env input outDir =
     (let projectId = uuid env;
          projectDir = pathJoin env outDir projectId
      in case mkdirSync env projectDir of
           Some e \<Rightarrow> Inl e
         | None \<Rightarrow>
     (let videoFileName = ''video.webm'';
          videoDestPath = pathJoin env projectDir videoFileName
      in case copyFileSync env (in_videoPath input) videoDestPath of
           Some e \<Rightarrow> Inl e
         | None \<Rightarrow>
     (let audioFileName =
            (case in_audioPath input of
               Some p \<Rightarrow> if p \<noteq> [] \<and> existsSync env p then Some ''narration.mp3'' else None
             | None \<Rightarrow> None)
      in case (case in_audioPath input of
                 Some p \<Rightarrow>
                   if p \<noteq> [] \<and> existsSync env p
                   then copyFileSync env p (pathJoin env projectDir ''narration.mp3'')
                   else None
               | None \<Rightarrow> None) of
           Some e \<Rightarrow> Inl e
         | None \<Rightarrow>
     (let duration =
            (if length (in_timestamps input) > 0
             then endTime (in_timestamps input ! (length (in_timestamps input) - 1))
             else 0);
          subtitles = generateSubtitles (in_steps input) (in_timestamps input);
          highlights =
            (case in_autoHighlights input of
               Some hs \<Rightarrow>
                 if length hs > 0 then hs
                 else generateHighlights (in_steps input) (in_timestamps input)
             | None \<Rightarrow> generateHighlights (in_steps input) (in_timestamps input));
          questions =
            addQuestionIds (case in_questions input of Some qs \<Rightarrow> qs | None \<Rightarrow> []);
          summary =
            (if in_generateSummary input = Some True
             then Some (generateSummary (in_steps input) (in_timestamps input))
             else None);
          interactiveSteps = generateInteractiveSteps (in_steps input) (in_timestamps input);
          proj =
            \<lparr>p_id = projectId,
             p_title = in_title input,
             p_description = in_description input,
             p_targetUrl = in_targetUrl input,
             p_duration = duration,
             p_createdAt = nowISO env,
             p_layers =
               \<lparr>video = \<lparr>v_src = videoFileName, v_width = 1280, v_height = 720\<rparr>,
                audio =
                  (case audioFileName of
                     Some f \<Rightarrow> \<lparr>a_src = f, a_volume = 1\<rparr>
                   | None \<Rightarrow> \<lparr>a_src = [], a_volume = 0\<rparr>),
                subtitles = subtitles,
                highlights = highlights,
                questions = questions,
                summary = summary\<rparr>,
             p_interactiveSteps = interactiveSteps,
             p_defaultLanguage =
               (case in_defaultLanguage input of
                  Some l \<Rightarrow> if l \<noteq> [] then l else ''en''
                | None \<Rightarrow> ''en''),
             p_availableLanguages =
               (case in_availableLanguages input of
                  Some ls \<Rightarrow> ls
                | None \<Rightarrow> [''en''])\<rparr>;
          projectJsonPath = pathJoin env projectDir ''project.json''
      in case writeFileSync env projectJsonPath of
           Some e \<Rightarrow> Inl e
         | None \<Rightarrow>
     (let playerHtmlDest = pathJoin env projectDir ''index.html'';
          altPath =
            pathJoin env (pathJoin env (pathJoin env (cwd env) ''src'') ''player'')
              ''player.html''
      in case (if existsSync env (playerPath env)
               then copyFileSync env (playerPath env) playerHtmlDest
               else if existsSync env altPath
               then copyFileSync env altPath playerHtmlDest
               else None) of
           Some e \<Rightarrow> Inl e
         | None \<Rightarrow> Inr \<lparr>project = proj, outputDir = projectDir\<rparr>)))))"

text \<open>The first exception among the file system calls of \<open>assembleProject\<close>, in the order
  of the calls; \<open>None\<close> when every call returns.\<close>

definition fsFailure :: "Env \<Rightarrow> AssemblerInput \<Rightarrow> string \<Rightarrow> fs_error option" where
  "fsFailure env input outDir =
     (let projectDir = pathJoin env outDir (uuid env)
      in case mkdirSync env projectDir of
           Some e \<Rightarrow> Some e
         | None \<Rightarrow>
     (case copyFileSync env (in_videoPath input) (pathJoin env projectDir ''video.webm'') of
           Some e \<Rightarrow> Some e
         | None \<Rightarrow>
     (case (case in_audioPath input of
              Some p \<Rightarrow>
                if p \<noteq> [] \<and> existsSync env p
                then copyFileSync env p (pathJoin env projectDir ''narration.mp3'')
                else None
            | None \<Rightarrow> None) of
           Some e \<Rightarrow> Some e
         | None \<Rightarrow>
     (case writeFileSync env (pathJoin env projectDir ''project.json'') of
           Some e \<Rightarrow> Some e
         | None \<Rightarrow>
     (if existsSync env (playerPath env)
      then copyFileSync env (playerPath env) (pathJoin env projectDir ''index.html'')
      else if existsSync env
                (pathJoin env (pathJoin env (pathJoin env (cwd env) ''src'') ''player'')
                   ''player.html'')
      then copyFileSync env
             (pathJoin env (pathJoin env (pathJoin env (cwd env) ''src'') ''player'')
                ''player.html'')
             (pathJoin env projectDir ''index.html'')
      else None)))))"

text \<open>The project \<open>assembleProject\<close> has built by the time it writes \<open>project.json\<close>.\<close>

definition builtProject :: "Env \<Rightarrow> AssemblerInput \<Rightarrow> Project" where
  "builtProject env input =
     \<lparr>p_id = uuid env,
      p_title = in_title input,
      p_description = in_description input,
      p_targetUrl = in_targetUrl input,
      p_duration =
        (if in_timestamps input = [] then 0 else endTime (last (in_timestamps input))),
      p_createdAt = nowISO env,
      p_layers =
        \<lparr>video = \<lparr>v_src = ''video.webm'', v_width = 1280, v_height = 720\<rparr>,
         audio =
           (case in_audioPath input of
              Some p \<Rightarrow>
                if p \<noteq> [] \<and> existsSync env p
                then \<lparr>a_src = ''narration.mp3'', a_volume = 1\<rparr>
                else \<lparr>a_src = [], a_volume = 0\<rparr>
            | None \<Rightarrow> \<lparr>a_src = [], a_volume = 0\<rparr>),
         subtitles = generateSubtitles (in_steps input) (in_timestamps input),
         highlights =
           (case in_autoHighlights input of
              Some hs \<Rightarrow>
                if hs \<noteq> [] then hs
                else generateHighlights (in_steps input) (in_timestamps input)
            | None \<Rightarrow> generateHighlights (in_steps input) (in_timestamps input)),
         questions =
           addQuestionIds (case in_questions input of Some qs \<Rightarrow> qs | None \<Rightarrow> []),
         summary =
           (if in_generateSummary input = Some True
            then Some (generateSummary (in_steps input) (in_timestamps input))
            else None)\<rparr>,
      p_interactiveSteps = generateInteractiveSteps (in_steps input) (in_timestamps input),
      p_defaultLanguage =
        (case in_defaultLanguage input of
           Some l \<Rightarrow> if l \<noteq> [] then l else ''en''
         | None \<Rightarrow> ''en''),
      p_availableLanguages =
        (case in_availableLanguages input of
           Some ls \<Rightarrow> ls
         | None \<Rightarrow> [''en''])\<rparr>"

section \<open>The element detector (src/core/element-detector.ts)\<close>

text \<open>
  What the callback passed to \<open>element.evaluate\<close> reads from the page: the element's tag
  name, its attributes (\<open>getAttribute\<close>, \<open>None\<close> for \<open>null\<close>), its \<open>textContent\<close>, its
  \<open>className\<close> (\<open>None\<close> when it is not a string), the \<open>textContent\<close> of the label that
  \<open>document.querySelector\<close> finds for a given \<open>for\<close> value, and the \<open>textContent\<close> of the
  label \<open>closest('label')\<close> finds (\<open>None\<close> when there is no such label).
\<close>

record Elem =
  el_tagName :: string
  el_getAttribute :: "string \<Rightarrow> string option"
  el_textContent :: "string option"
  el_className :: "string option"
  el_labelFor :: "string \<Rightarrow> string option"
  el_closestLabel :: "string option"

text \<open>A \<open>string | null\<close> value in a condition: \<open>null\<close> and the empty string are falsy.\<close>

definition truthy :: "string option \<Rightarrow> bool" where
  "truthy v = (case v of Some s \<Rightarrow> s \<noteq> [] | None \<Rightarrow> False)"

text \<open>\<open>String.prototype.trim\<close>: the white space and line terminators among the code
  units 0..255 are TAB, LF, VT, FF, CR, SP and NBSP.\<close>

definition isWhiteSpace :: "char \<Rightarrow> bool" where
  "isWhiteSpace c = ((of_char c :: nat) \<in> {9, 10, 11, 12, 13, 32, 160})"

definition trim :: "string \<Rightarrow> string" where
  "trim s = rev (dropWhile isWhiteSpace (rev (dropWhile isWhiteSpace s)))"

text \<open>\<open>s.replace(pat, '')\<close> for a string pattern: the first occurrence of \<open>pat\<close> is removed.\<close>

fun removeFirst :: "string \<Rightarrow> string \<Rightarrow> string" where
  "removeFirst [] pat = []"
| "removeFirst (c # cs) pat =
     (if take (length pat) (c # cs) = pat then drop (length pat) (c # cs)
      else c # removeFirst cs pat)"

text \<open>The tag-name-based name of rule 10.\<close>

definition fallbackName :: "Elem \<Rightarrow> string" where
  "fallbackName el =
     (let type = (case el_getAttribute el ''type'' of Some t \<Rightarrow> t | None \<Rightarrow> [])
      in toLowerCase (el_tagName el) @ (if type \<noteq> [] then '' ('' @ type @ '')'' else []))"

text \<open>The statements of rules 1 to 10, each as the new value of the variable
  \<open>fieldName\<close> given its old one. Rules 3 to 6, 8 and 9 are the same statement
  \<open>if (!fieldName) fieldName = elem.getAttribute(a)\<close> for six attributes.\<close>

definition labelForRule :: "Elem \<Rightarrow> string option \<Rightarrow> string option" where
  "labelForRule el fieldName =
     (case el_getAttribute el ''id'' of
        Some i \<Rightarrow>
          if i \<noteq> [] then
            (case el_labelFor el i of
               Some txt \<Rightarrow> if txt \<noteq> [] then Some (trim txt) else fieldName
             | None \<Rightarrow> fieldName)
          else fieldName
      | None \<Rightarrow> fieldName)"

definition parentLabelRule :: "Elem \<Rightarrow> string option \<Rightarrow> string option" where
  "parentLabelRule el fieldName =
     (if \<not> truthy fieldName then
        (case el_closestLabel el of
           Some txt \<Rightarrow>
             if txt \<noteq> [] then
               (let labelText = trim txt;
                    elText = (case el_textContent el of Some t \<Rightarrow> t | None \<Rightarrow> [])
                in Some (trim (removeFirst labelText elText)))
             else fieldName
         | None \<Rightarrow> fieldName)
      else fieldName)"

definition attributeRule :: "Elem \<Rightarrow> string \<Rightarrow> string option \<Rightarrow> string option" where
  "attributeRule el a fieldName =
     (if \<not> truthy fieldName then el_getAttribute el a else fieldName)"

definition textRule :: "Elem \<Rightarrow> string option \<Rightarrow> string option" where
  "textRule el fieldName =
     (if \<not> truthy fieldName \<and> truthy (el_textContent el)
      then map_option trim (el_textContent el) else fieldName)"

definition fallbackRule :: "Elem \<Rightarrow> string option \<Rightarrow> string option" where
  "fallbackRule el fieldName =
     (case fieldName of
        None \<Rightarrow> Some (fallbackName el)
      | Some n \<Rightarrow>
          if n = [] \<or> length n = 0 \<or> length n \<ge> 100 then Some (fallbackName el)
          else Some n)"

definition inferFieldName :: "Elem \<Rightarrow> string option" where
  "inferFieldName el =
     (let fieldName = None;
          fieldName = labelForRule el fieldName;
          fieldName = parentLabelRule el fieldName;
          fieldName = attributeRule el ''placeholder'' fieldName;
          fieldName = attributeRule el ''aria-label'' fieldName;
          fieldName = attributeRule el ''title'' fieldName;
          fieldName = attributeRule el ''name'' fieldName;
          fieldName = textRule el fieldName;
          fieldName = attributeRule el ''alt'' fieldName;
          fieldName = attributeRule el ''value'' fieldName
      in fallbackRule el fieldName)"

record EvaluatedInfo =
  ev_tagName :: string
  ev_fieldName :: string
  ev_fieldType :: "string option"
  ev_action :: string
  ev_selector :: string

text \<open>The whole callback (lines 36 to 118): the field name, then the selector, whose
  \<open>if\<close>/\<open>else if\<close> chain is read from its last branch (\<open>byClass\<close>) to its first.\<close>

definition evaluateInfo :: "Elem \<Rightarrow> string \<Rightarrow> EvaluatedInfo" where
  "evaluateInfo el actionType =
     (let id = el_getAttribute el ''id'';
          fieldName = inferFieldName el;
          tagName = toLowerCase (el_tagName el);
          fieldType =
            (case el_getAttribute el ''type'' of
               Some t \<Rightarrow> if t \<noteq> [] then Some t else None
             | None \<Rightarrow> None);
          name = el_getAttribute el ''name'';
          classes = el_className el;
          byClass =
            (case classes of
               Some cs \<Rightarrow>
                 if cs \<noteq> [] then
                   (let mainClass = takeWhile (\<lambda>c. c \<noteq> CHR '' '') cs
                    in if mainClass \<noteq> [] then tagName @ ''.'' @ mainClass else tagName)
                 else tagName
             | None \<Rightarrow> tagName);
          byType =
            (case fieldType of
               Some t \<Rightarrow> tagName @ ''[type='' @ [CHR 0x22] @ t @ [CHR 0x22] @ '']''
             | None \<Rightarrow> byClass);
          byName =
            (case name of
               Some n \<Rightarrow>
                 if n \<noteq> [] then tagName @ ''[name='' @ [CHR 0x22] @ n @ [CHR 0x22] @ '']''
                 else byType
             | None \<Rightarrow> byType);
          selector =
            (case id of
               Some i \<Rightarrow> if i \<noteq> [] then ''#'' @ i else byName
             | None \<Rightarrow> byName)
      in \<lparr>ev_tagName = tagName,
          ev_fieldName =
            (case fieldName of
               Some n \<Rightarrow> if n \<noteq> [] then n else ''unknown''
             | None \<Rightarrow> ''unknown''),
          ev_fieldType = fieldType,
          ev_action = actionType,
          ev_selector = selector\<rparr>)"

text \<open>The names the nine lookup rules yield, in the order the source tries them:
  label for the id, enclosing label, placeholder, aria-label, title, name, element text,
  alt, value. A rule that does not apply yields \<open>None\<close>.\<close>

definition candidates :: "Elem \<Rightarrow> string option list" where
  "candidates el =
     [(case el_getAttribute el ''id'' of
         Some i \<Rightarrow>
           if i \<noteq> [] then
             (case el_labelFor el i of
                Some txt \<Rightarrow> if txt \<noteq> [] then Some (trim txt) else None
              | None \<Rightarrow> None)
           else None
       | None \<Rightarrow> None),
      (case el_closestLabel el of
         Some txt \<Rightarrow>
           if txt \<noteq> [] then
             Some (trim (removeFirst (trim txt)
                           (case el_textContent el of Some t \<Rightarrow> t | None \<Rightarrow> [])))
           else None
       | None \<Rightarrow> None),
      el_getAttribute el ''placeholder'',
      el_getAttribute el ''aria-label'',
      el_getAttribute el ''title'',
      el_getAttribute el ''name'',
      map_option trim (el_textContent el),
      el_getAttribute el ''alt'',
      el_getAttribute el ''value'']"

text \<open>The rule the specification states: the first rule that yields a name decides, and
  the tag-name-based fallback is used when none does.\<close>

definition specFieldName :: "Elem \<Rightarrow> string" where
  "specFieldName el =
     (case List.find truthy (candidates el) of
        Some (Some n) \<Rightarrow> n
      | _ \<Rightarrow> fallbackName el)"

text \<open>Loop invariant of the rule chain: after the rules that yield the names \<open>cs\<close>, the
  variable holds the first truthy one of them, and is falsy when there is none.\<close>

definition firstSoFar :: "string option list \<Rightarrow> string option \<Rightarrow> bool" where
  "firstSoFar cs f = (case List.find truthy cs of Some c \<Rightarrow> f = c | None \<Rightarrow> \<not> truthy f)"

section \<open>Deleting a step (src/app/server.ts, src/types/studio.ts)\<close>

datatype TutorialStatus = TDraft | TRecording | TProcessing | TReady | TError

record StepPosition =
  pos_x :: real
  pos_y :: real
  pos_width :: real
  pos_height :: real

record StepTranslation =
  st_fieldName :: string
  st_actionDescription :: string
  st_instruction :: "string option"
  st_hint :: "string option"

record TutorialStep =
  ts_id :: string
  ts_order :: int
  ts_timestamp :: int
  ts_duration :: int
  ts_elementInfo :: ElementInfo
  ts_position :: StepPosition
  ts_screenshotFile :: "string option"
  ts_highlightType :: HighlightType
  ts_translations :: "(string \<times> StepTranslation) list"

record Tutorial =
  t_id :: string
  t_title :: string
  t_description :: "string option"
  t_prompt :: string
  t_createdAt :: string
  t_updatedAt :: string
  t_videoFile :: "string option"
  t_duration :: int
  t_steps :: "TutorialStep list"
  t_interactiveSteps :: "InteractiveStep list option"
  t_status :: TutorialStatus

record ProjectSettings =
  ps_defaultLanguage :: string
  ps_availableLanguages :: "string list"
  ps_credentials :: "(string \<times> string) option"
  ps_viewport :: "nat \<times> nat"
  ps_theme :: "(string option \<times> string option \<times> string option) option"

record StudioProject =
  sp_id :: string
  sp_name :: string
  sp_description :: "string option"
  sp_targetUrl :: string
  sp_createdAt :: string
  sp_updatedAt :: string
  sp_tutorials :: "Tutorial list"
  sp_settings :: ProjectSettings

text \<open>
  The projects directory: what the file \<open>project.json\<close> of a project id holds, \<open>None\<close> when
  \<open>fs.existsSync\<close> is false. A file that \<open>JSON.parse\<close> rejects carries the message of the
  exception. The handler answers with a status; \<open>res.json({ success: true })\<close> is
  \<open>Success200\<close>, and the \<open>catch\<close> block answers 500 with the exception's message.
\<close>

datatype stored = Json StudioProject | Unparsable string

type_synonym store = "string \<Rightarrow> stored option"

datatype response = Status404 string | Status500 string | Success200

text \<open>\<open>Array.prototype.findIndex\<close>; \<open>None\<close> stands for \<open>-1\<close>. \<open>Array.prototype.find\<close> is
  read through it: the element found is the one at the index found.\<close>

fun findIndex :: "('a \<Rightarrow> bool) \<Rightarrow> 'a list \<Rightarrow> nat option" where
  "findIndex P [] = None"
| "findIndex P (x # xs) =
     (if P x then Some 0 else map_option Suc (findIndex P xs))"

text \<open>\<open>xs.splice(i, 1)\<close>: the array without its element at index \<open>i\<close>.\<close>

definition splice1 :: "nat \<Rightarrow> 'a list \<Rightarrow> 'a list" where
  "splice1 i xs = take i xs @ drop (Suc i) xs"

text \<open>\<open>steps.forEach((s, i) => { s.order = i })\<close>, with \<open>i\<close> the index of the first element.\<close>

fun reorderLoop :: "TutorialStep list \<Rightarrow> nat \<Rightarrow> TutorialStep list" where
  "reorderLoop [] i = []"
| "reorderLoop (s # rest) i = s\<lparr>ts_order := int i\<rparr> # reorderLoop rest (i + 1)"

definition deleteStep :: "string \<Rightarrow> store \<Rightarrow> string \<Rightarrow> string \<Rightarrow> string \<Rightarrow> response \<times> store" where
  "deleteStep now files projectId tutorialId sid =
     (case files projectId of
        None \<Rightarrow> (Status404 ''Project not found'', files)
      | Some (Unparsable msg) \<Rightarrow> (Status500 msg, files)
      | Some (Json proj) \<Rightarrow>
          (case findIndex (\<lambda>t. t_id t = tutorialId) (sp_tutorials proj) of
             None \<Rightarrow> (Status404 ''Tutorial not found'', files)
           | Some k \<Rightarrow>
               (let tutorial = sp_tutorials proj ! k
                in case findIndex (\<lambda>s. ts_id s = sid) (t_steps tutorial) of
                     None \<Rightarrow> (Status404 ''Step not found'', files)
                   | Some stepIndex \<Rightarrow>
                       (let steps = splice1 stepIndex (t_steps tutorial);
                            steps = reorderLoop steps 0;
                            tutorial = tutorial\<lparr>t_steps := steps, t_updatedAt := now\<rparr>;
                            proj =
                              proj\<lparr>sp_tutorials := (sp_tutorials proj)[k := tutorial],
                                      sp_updatedAt := now\<rparr>
                        in (Success200, files(projectId \<mapsto> Json proj))))))"

text \<open>The steps of the tutorial a request addresses: the first tutorial with the given id
  in the stored project.\<close>

definition stepsOf :: "store \<Rightarrow> string \<Rightarrow> string \<Rightarrow> TutorialStep list option" where
  "stepsOf files projectId tutorialId =
     (case files projectId of
        Some (Json proj) \<Rightarrow>
          (case findIndex (\<lambda>t. t_id t = tutorialId) (sp_tutorials proj) of
             Some k \<Rightarrow> Some (t_steps (sp_tutorials proj ! k))
           | None \<Rightarrow> None)
      | _ \<Rightarrow> None)"

section \<open>The hit-test of the playback engine\<close>

text \<open>
  Modelled from the spec: the hit-test of the Interactive Playback Engine, whose code (the
  player page that \<open>assembleProject\<close> copies beside the project) is not among the source
  files. The specification's words: a pointer event at viewport-relative percentage
  coordinates \<open>(px, py)\<close> is correct iff it falls within the target rectangle expanded by
  \<open>tolerancePx\<close> converted to the same percentage units using the current viewport
  dimensions; a point exactly on the boundary counts as inside. The target rectangle is
  read as spanning \<open>x .. x + width\<close> and \<open>y .. y + height\<close>, as in the specification's
  \<open>x + width > 100\<close>. \<open>HitTarget\<close> holds the fields of the specification's \<open>ClickTarget\<close>
  that the test reads.
\<close>

record Viewport =
  vp_width :: real
  vp_height :: real

record HitTarget =
  ht_x :: real
  ht_y :: real
  ht_width :: real
  ht_height :: real
  ht_tolerancePx :: real

definition hitTest :: "HitTarget \<Rightarrow> Viewport \<Rightarrow> real \<Rightarrow> real \<Rightarrow> bool" where
  "hitTest target vp px py =
     (let tolX = ht_tolerancePx target / vp_width vp * 100;
          tolY = ht_tolerancePx target / vp_height vp * 100
      in ht_x target - tolX \<le> px \<and> px \<le> ht_x target + ht_width target + tolX \<and>
         ht_y target - tolY \<le> py \<and> py \<le> ht_y target + ht_height target + tolY)"

section \<open>Concrete inputs\<close>

definition exampleEnv :: "string \<Rightarrow> string \<Rightarrow> Env" where
  "exampleEnv u n =
     \<lparr>uuid = u, nowISO = n, pathJoin = (\<lambda>a b. a @ ''/'' @ b),
      playerPath = ''/app/dist/player/player.html'', cwd = ''/app'',
      existsSync = (\<lambda>p. p = ''rec.webm''),
      mkdirSync = (\<lambda>d. None),
      copyFileSync =
        (\<lambda>src dst. if src = ''rec.webm'' then None
                    else Some (FsError (''ENOENT: no such file or directory, copyfile '' @ src))),
      writeFileSync = (\<lambda>p. None)\<rparr>"

definition exampleStep ::
  "string \<Rightarrow> StepAction \<Rightarrow> string \<Rightarrow> StepHighlight option \<Rightarrow> AutomationStep" where
  "exampleStep i a n h =
     \<lparr>as_id = i, as_action = a, as_selector = None, as_value = None,
      as_description = ''Open the menu'', as_narration = n, as_waitAfter = None,
      as_waitForSelector = None, as_highlight = h\<rparr>"

definition exampleInput :: "AutomationStep list \<Rightarrow> StepTimestamp list \<Rightarrow> AssemblerInput" where
  "exampleInput steps ts =
     \<lparr>in_title = ''Demo'', in_description = ''A demo'', in_targetUrl = ''http://x'',
      in_videoPath = ''rec.webm'', in_audioPath = None, in_steps = steps,
      in_timestamps = ts, in_questions = None, in_generateSummary = None,
      in_autoHighlights = None, in_defaultLanguage = None, in_availableLanguages = None\<rparr>"

definition exampleElem :: "(string \<Rightarrow> string option) \<Rightarrow> string option \<Rightarrow> Elem" where
  "exampleElem attrs txt =
     \<lparr>el_tagName = ''INPUT'', el_getAttribute = attrs, el_textContent = txt,
      el_className = None, el_labelFor = (\<lambda>i. None), el_closestLabel = None\<rparr>"

definition exampleTutorialStep :: "string \<Rightarrow> int \<Rightarrow> TutorialStep" where
  "exampleTutorialStep i k =
     \<lparr>ts_id = i, ts_order = k, ts_timestamp = 1000 * k, ts_duration = 2000,
      ts_elementInfo =
        \<lparr>ei_tagName = ''button'', ei_fieldName = i, ei_fieldType = None,
         ei_action = ''click'', ei_value = None, ei_selector = ''button''\<rparr>,
      ts_position = \<lparr>pos_x = 10, pos_y = 10, pos_width = 5, pos_height = 5\<rparr>,
      ts_screenshotFile = None, ts_highlightType = Pulse, ts_translations = []\<rparr>"

definition exampleStore :: store where
  "exampleStore =
     [''p1'' \<mapsto> Json
        \<lparr>sp_id = ''p1'', sp_name = ''Mail'', sp_description = None,
         sp_targetUrl = ''http://x'', sp_createdAt = ''t0'', sp_updatedAt = ''t0'',
         sp_tutorials =
           [\<lparr>t_id = ''t1'', t_title = ''Sign up'', t_description = None, t_prompt = ''sign up'',
             t_createdAt = ''t0'', t_updatedAt = ''t0'', t_videoFile = None, t_duration = 0,
             t_steps =
               [exampleTutorialStep ''a'' 0, exampleTutorialStep ''b'' 1,
                exampleTutorialStep ''c'' 2],
             t_interactiveSteps = None, t_status = TReady\<rparr>],
         sp_settings =
           \<lparr>ps_defaultLanguage = ''he'', ps_availableLanguages = [''he'', ''en'', ''ar''],
            ps_credentials = None, ps_viewport = (1280, 720), ps_theme = None\<rparr>\<rparr>]"

text \<open>Two projects that differ at most in their identity.\<close>

definition sameExceptId :: "Project \<Rightarrow> Project \<Rightarrow> bool" where
  "sameExceptId p q = (p\<lparr>p_id := p_id q\<rparr> = q)"

section \<open>Interactive steps are the click and type steps that carry a highlight\<close>

lemma interactiveLoop_zip:
  "interactiveLoop steps ts acc k =
     acc @ map (\<lambda>p. interactiveEntry (snd p) (the (as_highlight (snd p))) (fst p))
             (zip [k..<k + length (filter isInteractive steps)] (filter isInteractive steps))"
proof (induction steps arbitrary: acc k)
  case Nil
  then show ?case by simp
next
  case (Cons s steps)
  show ?case
    by (cases "as_highlight s")
       (auto simp: Cons.IH isInteractive_def upt_rec [of k] simp del: upt_Suc)
qed

lemma generateInteractiveSteps_zip:
  "generateInteractiveSteps steps ts =
     map (\<lambda>p. interactiveEntry (snd p) (the (as_highlight (snd p))) (fst p))
         (zip [0..<length (filter isInteractive steps)] (filter isInteractive steps))"
  by (simp add: generateInteractiveSteps_def interactiveLoop_zip)

lemma interactiveEntry_id [simp]: "is_id (interactiveEntry s h k) = ''interactive-'' @ as_id s"
  by (simp add: interactiveEntry_def)

lemma interactiveEntry_order [simp]: "is_order (interactiveEntry s h k) = k"
  by (simp add: interactiveEntry_def)

text \<open>
  C1. The interactive steps are exactly the steps whose action is click or type and which
  carry a highlight, one entry per such step and in source order (the entry for a step
  \<open>s\<close> has the id \<open>interactive-\<close> followed by the id of \<open>s\<close>), and their order values are
  0, 1, 2, ... . In particular the trace navigate, click with hint, type with hint, wait
  yields two entries, for the click and the type step, with orders 0 and 1.
\<close>

theorem generateInteractiveSteps_filter_dense:
  "map is_id (generateInteractiveSteps steps ts) =
     map (\<lambda>s. ''interactive-'' @ as_id s)
         (filter (\<lambda>s. as_action s \<in> {Click, Type} \<and> as_highlight s \<noteq> None) steps)
   \<and> map is_order (generateInteractiveSteps steps ts) =
       [0..<length (generateInteractiveSteps steps ts)]
   \<and> map (\<lambda>e. (is_id e, is_order e))
        (generateInteractiveSteps
           [a\<lparr>as_action := Navigate\<rparr>,
            b\<lparr>as_action := Click, as_highlight := Some h1\<rparr>,
            c\<lparr>as_action := Type, as_highlight := Some h2\<rparr>,
            d\<lparr>as_action := Wait\<rparr>] ts) =
       [(''interactive-'' @ as_id b, 0), (''interactive-'' @ as_id c, 1)]"
proof (intro conjI)
  let ?Q = "filter isInteractive steps"
  let ?Z = "zip [0..<length ?Q] ?Q"
  have "map is_id (generateInteractiveSteps steps ts) =
      map (\<lambda>s. ''interactive-'' @ as_id s) (map snd ?Z)"
    by (simp only: generateInteractiveSteps_zip map_map o_def interactiveEntry_id)
  also have "map snd ?Z = ?Q"
    by (rule map_snd_zip) simp
  finally show "map is_id (generateInteractiveSteps steps ts) =
     map (\<lambda>s. ''interactive-'' @ as_id s)
         (filter (\<lambda>s. as_action s \<in> {Click, Type} \<and> as_highlight s \<noteq> None) steps)"
    by (simp add: isInteractive_def [abs_def])
  have len: "length (generateInteractiveSteps steps ts) = length ?Q"
    by (simp add: generateInteractiveSteps_zip)
  have "map is_order (generateInteractiveSteps steps ts) = map fst ?Z"
    by (simp only: generateInteractiveSteps_zip map_map o_def interactiveEntry_order)
  also have "map fst ?Z = [0..<length ?Q]"
    by (rule map_fst_zip) simp
  finally show "map is_order (generateInteractiveSteps steps ts) =
       [0..<length (generateInteractiveSteps steps ts)]"
    by (simp add: len)
  show "map (\<lambda>e. (is_id e, is_order e))
        (generateInteractiveSteps
           [a\<lparr>as_action := Navigate\<rparr>,
            b\<lparr>as_action := Click, as_highlight := Some h1\<rparr>,
            c\<lparr>as_action := Type, as_highlight := Some h2\<rparr>,
            d\<lparr>as_action := Wait\<rparr>] ts) =
       [(''interactive-'' @ as_id b, 0), (''interactive-'' @ as_id c, 1)]"
    by (simp add: generateInteractiveSteps_def)
qed

section \<open>What a run returns\<close>

lemma builtProject_audio:
  "(case (case in_audioPath inp of
            Some p \<Rightarrow> if p \<noteq> [] \<and> existsSync env p then Some ''narration.mp3'' else None
          | None \<Rightarrow> None) of
      Some f \<Rightarrow> \<lparr>a_src = f, a_volume = 1\<rparr>
    | None \<Rightarrow> \<lparr>a_src = [], a_volume = 0\<rparr>) =
   (case in_audioPath inp of
      Some p \<Rightarrow>
        if p \<noteq> [] \<and> existsSync env p
        then \<lparr>a_src = ''narration.mp3'', a_volume = 1\<rparr>
        else \<lparr>a_src = [], a_volume = 0\<rparr>
    | None \<Rightarrow> \<lparr>a_src = [], a_volume = 0\<rparr>)"
  by (cases "in_audioPath inp") simp_all

lemma builtProject_highlights:
  "(case in_autoHighlights inp of
      Some hs \<Rightarrow> if length hs > 0 then hs else g
    | None \<Rightarrow> g) =
   (case in_autoHighlights inp of
      Some hs \<Rightarrow> if hs \<noteq> [] then hs else g
    | None \<Rightarrow> g)"
  by (cases "in_autoHighlights inp") simp_all

text \<open>A run ends with the first exception of a file system call; when there is none it
  returns the project built and the project directory.\<close>

lemma assembleProject_eq:
  "assembleProject env inp dir =
     (case fsFailure env inp dir of
        Some e \<Rightarrow> Inl e
      | None \<Rightarrow> Inr \<lparr>project = builtProject env inp, outputDir = pathJoin env dir (uuid env)\<rparr>)"
proof -
  let ?pd = "pathJoin env dir (uuid env)"
  let ?alt = "pathJoin env (pathJoin env (pathJoin env (cwd env) ''src'') ''player'')
                ''player.html''"
  let ?audio = "case in_audioPath inp of
                  Some p \<Rightarrow>
                    if p \<noteq> [] \<and> existsSync env p
                    then copyFileSync env p (pathJoin env ?pd ''narration.mp3'')
                    else None
                | None \<Rightarrow> None"
  let ?player = "if existsSync env (playerPath env)
                 then copyFileSync env (playerPath env) (pathJoin env ?pd ''index.html'')
                 else if existsSync env ?alt
                 then copyFileSync env ?alt (pathJoin env ?pd ''index.html'')
                 else None"
  note defs = assembleProject_def fsFailure_def Let_def
  show ?thesis
  proof (cases "mkdirSync env ?pd")
    case Some
    then show ?thesis by (simp add: defs)
  next
    case m: None
    show ?thesis
    proof (cases "copyFileSync env (in_videoPath inp) (pathJoin env ?pd ''video.webm'')")
      case Some
      with m show ?thesis by (simp add: defs)
    next
      case c: None
      show ?thesis
      proof (cases ?audio)
        case Some
        with m c show ?thesis by (simp add: defs split del: if_split)
      next
        case a: None
        show ?thesis
        proof (cases "writeFileSync env (pathJoin env ?pd ''project.json'')")
          case Some
          with m c a show ?thesis by (simp add: defs split del: if_split)
        next
          case w: None
          show ?thesis
          proof (cases ?player)
            case Some
            with m c a w show ?thesis by (simp add: defs split del: if_split)
          next
            case None
            with m c a w show ?thesis
              by (simp add: defs builtProject_def builtProject_audio builtProject_highlights
                    split del: if_split)
                 (simp add: last_conv_nth)
          qed
        qed
      qed
    qed
  qed
qed

lemma fsFailure_steps_timestamps [simp]:
  "fsFailure env (inp\<lparr>in_steps := steps\<rparr>) dir = fsFailure env inp dir"
  "fsFailure env (inp\<lparr>in_timestamps := ts\<rparr>) dir = fsFailure env inp dir"
  by (simp_all add: fsFailure_def Let_def cong: option.case_cong if_cong)

lemma assembleProject_Inr_iff:
  "assembleProject env inp dir = Inr out \<longleftrightarrow>
     fsFailure env inp dir = None \<and>
     out = \<lparr>project = builtProject env inp, outputDir = pathJoin env dir (uuid env)\<rparr>"
  by (cases "fsFailure env inp dir") (auto simp: assembleProject_eq)

lemma assembleProject_Inr:
  assumes "assembleProject env inp dir = Inr out"
  shows "project out = builtProject env inp"
    and "p_id (project out) = uuid env"
    and "p_createdAt (project out) = nowISO env"
    and "p_duration (project out) =
           (if in_timestamps inp = [] then 0 else endTime (last (in_timestamps inp)))"
    and "subtitles (p_layers (project out)) = generateSubtitles (in_steps inp) (in_timestamps inp)"
    and "p_interactiveSteps (project out) =
           generateInteractiveSteps (in_steps inp) (in_timestamps inp)"
  using assms by (simp_all add: assembleProject_Inr_iff builtProject_def)

lemma assembleProject_highlights:
  assumes "assembleProject env inp dir = Inr out"
  shows "highlights (p_layers (project out)) =
           (case in_autoHighlights inp of
              Some hs \<Rightarrow> if hs \<noteq> [] then hs
                         else generateHighlights (in_steps inp) (in_timestamps inp)
            | None \<Rightarrow> generateHighlights (in_steps inp) (in_timestamps inp))"
  using assms by (simp add: assembleProject_Inr_iff builtProject_def)

lemma assembleProject_languages:
  assumes "assembleProject env inp dir = Inr out"
  shows "p_defaultLanguage (project out) =
           (case in_defaultLanguage inp of
              Some l \<Rightarrow> if l \<noteq> [] then l else ''en'' | None \<Rightarrow> ''en'')"
    and "p_availableLanguages (project out) =
           (case in_availableLanguages inp of Some ls \<Rightarrow> ls | None \<Rightarrow> [''en''])"
  using assms by (simp_all add: assembleProject_Inr_iff builtProject_def)

section \<open>Duration\<close>

lemma sorted_last_Max:
  fixes xs :: "int list"
  assumes "sorted xs" "xs \<noteq> []"
  shows "last xs = Max (set xs)"
proof -
  have "\<forall>y\<in>set xs. y \<le> last xs"
    using assms by (induction xs) (auto split: if_splits)
  then show ?thesis
    using assms by (intro Max_eqI [symmetric]) auto
qed

text \<open>
  C2 (as amended). The duration of the compiled project is the \<open>endTime\<close> of the last
  timestamp supplied, and 0 when there is none; it is the maximum \<open>endTime\<close> whenever the
  end times do not decrease along the list.
\<close>

theorem assembleProject_duration_last:
  "assembleProject env inp dir = Inr out \<Longrightarrow>
     p_duration (project out) =
       (if in_timestamps inp = [] then 0 else endTime (last (in_timestamps inp)))
     \<and> (in_timestamps inp \<noteq> [] \<and> sorted (map endTime (in_timestamps inp)) \<longrightarrow>
          p_duration (project out) = Max (set (map endTime (in_timestamps inp))))"
proof (intro conjI impI)
  assume ok: "assembleProject env inp dir = Inr out"
  show d: "p_duration (project out) =
       (if in_timestamps inp = [] then 0 else endTime (last (in_timestamps inp)))"
    by (rule assembleProject_Inr(4) [OF ok])
  assume s: "in_timestamps inp \<noteq> [] \<and> sorted (map endTime (in_timestamps inp))"
  then have "last (map endTime (in_timestamps inp)) = Max (set (map endTime (in_timestamps inp)))"
    by (intro sorted_last_Max) simp_all
  with s d show "p_duration (project out) = Max (set (map endTime (in_timestamps inp)))"
    by (simp add: last_map)
qed

text \<open>
  C2 as stated fails: with the end times 100 and then 50 the duration is 50, the last one,
  and not their maximum 100.
\<close>

theorem duration_not_max_counterexample:
  "(case assembleProject (exampleEnv ''u1'' ''2024-05-01T10:00:00.000Z'')
          (exampleInput
             [exampleStep ''a'' Click ''Click the menu'' None,
              exampleStep ''b'' Click ''Click the item'' None]
             [\<lparr>stepId = ''a'', startTime = 0, endTime = 100\<rparr>,
              \<lparr>stepId = ''b'', startTime = 20, endTime = 50\<rparr>]) ''out'' of
      Inl e \<Rightarrow> False
    | Inr out \<Rightarrow>
        p_duration (project out) = 50 \<and>
        Max (set (map endTime
          [\<lparr>stepId = ''a'', startTime = 0, endTime = 100\<rparr>,
           \<lparr>stepId = ''b'', startTime = 20, endTime = 50\<rparr>])) = 100)"
  by (simp add: assembleProject_eq fsFailure_def builtProject_def exampleEnv_def exampleInput_def Let_def)

theorem assembleProject_duration_last_witness:
  "p_duration (project (projr (assembleProject (exampleEnv ''u1'' ''2024-05-01T10:00:00.000Z'')
       (exampleInput
          [exampleStep ''a'' Click ''Click the menu'' None,
           exampleStep ''b'' Click ''Click the item'' None]
          [\<lparr>stepId = ''a'', startTime = 0, endTime = 100\<rparr>,
           \<lparr>stepId = ''b'', startTime = 100, endTime = 350\<rparr>]) ''out''))) = 350
   \<and> Max (set (map endTime
         [\<lparr>stepId = ''a'', startTime = 0, endTime = 100\<rparr>,
          \<lparr>stepId = ''b'', startTime = 100, endTime = 350\<rparr>])) = 350"
  using assembleProject_duration_last
    [of "exampleEnv ''u1'' ''2024-05-01T10:00:00.000Z''"
        "exampleInput
          [exampleStep ''a'' Click ''Click the menu'' None,
           exampleStep ''b'' Click ''Click the item'' None]
          [\<lparr>stepId = ''a'', startTime = 0, endTime = 100\<rparr>,
           \<lparr>stepId = ''b'', startTime = 100, endTime = 350\<rparr>]"
        "''out''"
        "projr (assembleProject (exampleEnv ''u1'' ''2024-05-01T10:00:00.000Z'')
          (exampleInput
            [exampleStep ''a'' Click ''Click the menu'' None,
             exampleStep ''b'' Click ''Click the item'' None]
            [\<lparr>stepId = ''a'', startTime = 0, endTime = 100\<rparr>,
             \<lparr>stepId = ''b'', startTime = 100, endTime = 350\<rparr>]) ''out'')"]
  by (simp add: assembleProject_eq fsFailure_def builtProject_def exampleEnv_def exampleInput_def Let_def)

section \<open>Subtitles\<close>

lemma findTimestamp_None_iff:
  "findTimestamp ts sid = None \<longleftrightarrow> (\<forall>t\<in>set ts. stepId t \<noteq> sid)"
  by (induction ts) auto

lemma findTimestamp_SomeD:
  "findTimestamp ts sid = Some t \<Longrightarrow> t \<in> set ts \<and> stepId t = sid"
  by (induction ts) (auto split: if_splits)

lemma findTimestamp_distinct:
  "distinct (map stepId ts) \<Longrightarrow> t \<in> set ts \<Longrightarrow> findTimestamp ts (stepId t) = Some t"
  by (induction ts) (auto simp: image_iff)

lemma subtitlesLoop_concat:
  "subtitlesLoop steps ts acc =
     acc @ concat (map (\<lambda>s. case findTimestamp ts (as_id s) of
                              Some t \<Rightarrow>
                                if as_narration s \<noteq> []
                                then [\<lparr>sub_id = ''subtitle-'' @ as_id s,
                                       sub_start = startTime t, sub_end = endTime t,
                                       sub_text = as_narration s\<rparr>]
                                else []
                            | None \<Rightarrow> []) steps)"
  by (induction steps arbitrary: acc) (auto split: option.splits)

lemma filter_concat_none:
  "(\<And>y e. y \<in> set xs \<Longrightarrow> e \<in> set (h y) \<Longrightarrow> \<not> P e) \<Longrightarrow>
     filter P (concat (map h xs)) = []"
  by (induction xs) (auto simp: filter_empty_conv)

lemma filter_concat_one:
  assumes "distinct (map g xs)" and "x \<in> set xs"
    and "\<And>y e. e \<in> set (h y) \<Longrightarrow> P e \<longleftrightarrow> g y = g x"
  shows "filter P (concat (map h xs)) = h x"
  using assms(1,2)
proof (induction xs)
  case Nil
  then show ?case by simp
next
  case (Cons y ys)
  show ?case
  proof (cases "y = x")
    case True
    have "filter P (h x) = h x"
      by (simp add: assms(3))
    moreover have "filter P (concat (map h ys)) = []"
    proof (rule filter_concat_none)
      fix z e
      assume "z \<in> set ys" "e \<in> set (h z)"
      from Cons.prems True have "g x \<notin> g ` set ys" by simp
      with \<open>z \<in> set ys\<close> have "g z \<noteq> g x" by (metis imageI)
      with \<open>e \<in> set (h z)\<close> show "\<not> P e" by (simp add: assms(3))
    qed
    ultimately show ?thesis using True by simp
  next
    case False
    with Cons.prems have x: "x \<in> set ys" and d: "distinct (map g ys)" and "g y \<noteq> g x"
      by auto
    then have "filter P (h y) = []"
      by (simp add: filter_empty_conv assms(3))
    with Cons.IH [OF d x] show ?thesis by simp
  qed
qed

text \<open>
  C3 as stated fails: step \<open>a\<close> has narration and the two timestamps 0..100 and 200..300
  carry its id; the subtitle layer holds the one subtitle with the window 0..100 of the
  first, and none with the window 200..300 of the second.
\<close>

theorem duplicate_timestamp_subtitle_counterexample:
  "(case assembleProject (exampleEnv ''u1'' ''2024-05-01T10:00:00.000Z'')
          (exampleInput [exampleStep ''a'' Click ''Click the menu'' None]
             [\<lparr>stepId = ''a'', startTime = 0, endTime = 100\<rparr>,
              \<lparr>stepId = ''a'', startTime = 200, endTime = 300\<rparr>]) ''out'' of
      Inl e \<Rightarrow> False
    | Inr out \<Rightarrow>
        subtitles (p_layers (project out)) =
          [\<lparr>sub_id = ''subtitle-a'', sub_start = 0, sub_end = 100,
            sub_text = ''Click the menu''\<rparr>] \<and>
        filter (\<lambda>e. sub_start e = 200 \<and> sub_end e = 300 \<and> sub_text e = ''Click the menu'')
          (subtitles (p_layers (project out))) = [])"
  by (simp add: assembleProject_eq fsFailure_def builtProject_def exampleEnv_def exampleInput_def
        exampleStep_def Let_def generateSubtitles_def)

text \<open>
  C3 (as amended). When compilation succeeds, the subtitle layer holds, in step order,
  one entry per step that has a non-empty narration and a timestamp under its id, with
  the narration as text and the start and end of the first timestamp with that \<open>stepId\<close>,
  and nothing else. So a narrated step with a timestamp has a subtitle with the window of
  the first such timestamp; with step ids and timestamp ids each distinct it has exactly
  one subtitle, with the window of its one timestamp; and a step with no timestamp under
  its id has none. Such steps cause no error: compilation fails with them exactly when it
  fails without them.
\<close>

theorem assembleProject_subtitles_roundtrip:
  "(isl (assembleProject env inp dir) \<longleftrightarrow>
      isl (assembleProject env
             (inp\<lparr>in_steps :=
                    filter (\<lambda>s. findTimestamp (in_timestamps inp) (as_id s) \<noteq> None)
                      (in_steps inp)\<rparr>) dir))
   \<and> (\<forall>out. assembleProject env inp dir = Inr out \<longrightarrow>
        subtitles (p_layers (project out)) =
          concat (map (\<lambda>s. case findTimestamp (in_timestamps inp) (as_id s) of
                              Some t \<Rightarrow>
                                if as_narration s \<noteq> []
                                then [\<lparr>sub_id = ''subtitle-'' @ as_id s,
                                       sub_start = startTime t, sub_end = endTime t,
                                       sub_text = as_narration s\<rparr>]
                                else []
                            | None \<Rightarrow> []) (in_steps inp))
        \<and> (\<forall>s\<in>set (in_steps inp). \<forall>t.
              as_narration s \<noteq> [] \<and>
              findTimestamp (in_timestamps inp) (as_id s) = Some t \<longrightarrow>
              \<lparr>sub_id = ''subtitle-'' @ as_id s,
                sub_start = startTime t, sub_end = endTime t,
                sub_text = as_narration s\<rparr> \<in> set (subtitles (p_layers (project out))))
        \<and> (\<forall>s\<in>set (in_steps inp). \<forall>t\<in>set (in_timestamps inp).
              as_narration s \<noteq> [] \<and> stepId t = as_id s \<and>
              distinct (map as_id (in_steps inp)) \<and>
              distinct (map stepId (in_timestamps inp)) \<longrightarrow>
              filter (\<lambda>e. sub_id e = ''subtitle-'' @ as_id s)
                (subtitles (p_layers (project out))) =
                [\<lparr>sub_id = ''subtitle-'' @ as_id s,
                  sub_start = startTime t, sub_end = endTime t,
                  sub_text = as_narration s\<rparr>])
        \<and> (\<forall>s\<in>set (in_steps inp).
              (\<forall>t\<in>set (in_timestamps inp). stepId t \<noteq> as_id s) \<longrightarrow>
              filter (\<lambda>e. sub_id e = ''subtitle-'' @ as_id s)
                (subtitles (p_layers (project out))) = []))"
proof (intro conjI allI impI ballI)
  show "isl (assembleProject env inp dir) \<longleftrightarrow>
      isl (assembleProject env
             (inp\<lparr>in_steps :=
                    filter (\<lambda>s. findTimestamp (in_timestamps inp) (as_id s) \<noteq> None)
                      (in_steps inp)\<rparr>) dir)"
    by (cases "fsFailure env inp dir") (simp_all add: assembleProject_eq)
next
  fix out
  assume ok: "assembleProject env inp dir = Inr out"
  let ?ts = "in_timestamps inp"
  let ?h = "\<lambda>s. case findTimestamp ?ts (as_id s) of
                  Some t \<Rightarrow>
                    if as_narration s \<noteq> []
                    then [\<lparr>sub_id = ''subtitle-'' @ as_id s,
                           sub_start = startTime t, sub_end = endTime t,
                           sub_text = as_narration s\<rparr>]
                    else []
                | None \<Rightarrow> []"
  show subs: "subtitles (p_layers (project out)) = concat (map ?h (in_steps inp))"
    by (simp add: assembleProject_Inr(5) [OF ok] generateSubtitles_def subtitlesLoop_concat)
  have ids: "sub_id e = ''subtitle-'' @ as_id y" if "e \<in> set (?h y)" for e and y :: AutomationStep
    using that by (auto split: option.splits if_splits)
  {
    fix s t
    assume s: "s \<in> set (in_steps inp)"
      and h: "as_narration s \<noteq> [] \<and> findTimestamp ?ts (as_id s) = Some t"
    then have "\<lparr>sub_id = ''subtitle-'' @ as_id s,
                sub_start = startTime t, sub_end = endTime t,
                sub_text = as_narration s\<rparr> \<in> set (?h s)"
      by simp
    with s show "\<lparr>sub_id = ''subtitle-'' @ as_id s,
                sub_start = startTime t, sub_end = endTime t,
                sub_text = as_narration s\<rparr> \<in> set (subtitles (p_layers (project out)))"
      unfolding subs set_concat set_map by blast
  }
  {
    fix s t
    assume s: "s \<in> set (in_steps inp)" and t: "t \<in> set ?ts"
      and h: "as_narration s \<noteq> [] \<and> stepId t = as_id s \<and>
              distinct (map as_id (in_steps inp)) \<and> distinct (map stepId ?ts)"
    from h t have f: "findTimestamp ?ts (as_id s) = Some t"
      using findTimestamp_distinct [of ?ts t] by simp
    have "filter (\<lambda>e. sub_id e = ''subtitle-'' @ as_id s) (concat (map ?h (in_steps inp))) = ?h s"
      using h s by (intro filter_concat_one [where g = as_id]) (auto dest: ids)
    with f h show "filter (\<lambda>e. sub_id e = ''subtitle-'' @ as_id s)
                (subtitles (p_layers (project out))) =
                [\<lparr>sub_id = ''subtitle-'' @ as_id s,
                  sub_start = startTime t, sub_end = endTime t,
                  sub_text = as_narration s\<rparr>]"
      by (simp add: subs)
  }
  {
    fix s
    assume s: "s \<in> set (in_steps inp)" and none: "\<forall>t\<in>set ?ts. stepId t \<noteq> as_id s"
    then have f: "findTimestamp ?ts (as_id s) = None"
      by (simp add: findTimestamp_None_iff)
    have "filter (\<lambda>e. sub_id e = ''subtitle-'' @ as_id s) (concat (map ?h (in_steps inp))) = []"
    proof (rule filter_concat_none)
      fix y e
      assume "y \<in> set (in_steps inp)" and e: "e \<in> set (?h y)"
      show "sub_id e \<noteq> ''subtitle-'' @ as_id s"
      proof
        assume "sub_id e = ''subtitle-'' @ as_id s"
        with ids [OF e] have "as_id y = as_id s" by simp
        with f e show False by simp
      qed
    qed
    then show "filter (\<lambda>e. sub_id e = ''subtitle-'' @ as_id s)
                (subtitles (p_layers (project out))) = []"
      by (simp add: subs)
  }
qed

theorem assembleProject_subtitles_roundtrip_witness:
  "\<not> isl (assembleProject (exampleEnv ''u1'' ''2024-05-01T10:00:00.000Z'')
       (exampleInput
          [exampleStep ''a'' Click ''Click the menu'' None,
           exampleStep ''b'' Wait [] None,
           exampleStep ''c'' Click ''Click the item'' None]
          [\<lparr>stepId = ''a'', startTime = 0, endTime = 100\<rparr>,
           \<lparr>stepId = ''b'', startTime = 100, endTime = 350\<rparr>]) ''out'')
   \<and> subtitles (p_layers (project (projr
         (assembleProject (exampleEnv ''u1'' ''2024-05-01T10:00:00.000Z'')
            (exampleInput
               [exampleStep ''a'' Click ''Click the menu'' None,
                exampleStep ''b'' Wait [] None,
                exampleStep ''c'' Click ''Click the item'' None]
               [\<lparr>stepId = ''a'', startTime = 0, endTime = 100\<rparr>,
                \<lparr>stepId = ''b'', startTime = 100, endTime = 350\<rparr>]) ''out'')))) =
       [\<lparr>sub_id = ''subtitle-a'', sub_start = 0, sub_end = 100,
         sub_text = ''Click the menu''\<rparr>]
   \<and> filter (\<lambda>e. sub_id e = ''subtitle-c'')
         (subtitles (p_layers (project (projr
           (assembleProject (exampleEnv ''u1'' ''2024-05-01T10:00:00.000Z'')
              (exampleInput
                 [exampleStep ''a'' Click ''Click the menu'' None,
                  exampleStep ''b'' Wait [] None,
                  exampleStep ''c'' Click ''Click the item'' None]
                 [\<lparr>stepId = ''a'', startTime = 0, endTime = 100\<rparr>,
                  \<lparr>stepId = ''b'', startTime = 100, endTime = 350\<rparr>]) ''out''))))) = []"
proof -
  let ?E = "exampleEnv ''u1'' ''2024-05-01T10:00:00.000Z''"
  let ?a = "exampleStep ''a'' Click ''Click the menu'' None"
  let ?c = "exampleStep ''c'' Click ''Click the item'' None"
  let ?ta = "\<lparr>stepId = ''a'', startTime = 0, endTime = 100\<rparr>"
  let ?tb = "\<lparr>stepId = ''b'', startTime = 100, endTime = 350\<rparr>"
  let ?I = "exampleInput [?a, exampleStep ''b'' Wait [] None, ?c] [?ta, ?tb]"
  let ?out = "projr (assembleProject ?E ?I ''out'')"
  have run: "\<not> isl (assembleProject ?E ?I ''out'')"
    by (simp add: assembleProject_eq fsFailure_def builtProject_def exampleEnv_def exampleInput_def Let_def)
  then have ok: "assembleProject ?E ?I ''out'' = Inr ?out"
    by (cases "assembleProject ?E ?I ''out''") simp_all
  note T = assembleProject_subtitles_roundtrip [of ?E ?I "''out''", THEN conjunct2, rule_format, OF ok]
  have "subtitles (p_layers (project ?out)) =
      [\<lparr>sub_id = ''subtitle-a'', sub_start = 0, sub_end = 100, sub_text = ''Click the menu''\<rparr>]"
    using T [THEN conjunct1] by (simp add: exampleInput_def exampleStep_def)
  moreover have "filter (\<lambda>e. sub_id e = ''subtitle-'' @ as_id ?c)
      (subtitles (p_layers (project ?out))) = []"
    by (rule T [THEN conjunct2, THEN conjunct2, THEN conjunct2, rule_format])
       (auto simp: exampleInput_def exampleStep_def)
  ultimately show ?thesis
    using run by (simp add: exampleStep_def)
qed

section \<open>Highlights\<close>

lemma highlightsLoop_concat:
  "highlightsLoop steps ts acc =
     acc @ concat (map (\<lambda>s. case as_highlight s of
                              Some h \<Rightarrow>
                                (case findTimestamp ts (as_id s) of
                                   Some t \<Rightarrow>
                                     [\<lparr>hl_id = ''highlight-'' @ as_id s,
                                       hl_start = startTime t, hl_end = endTime t,
                                       hl_x = sh_x h, hl_y = sh_y h,
                                       hl_width = Some 5, hl_height = Some 5,
                                       hl_type = sh_type h, hl_color = None, hl_label = None,
                                       hl_elementInfo = None, hl_translations = None,
                                       hl_screenshotFile = None\<rparr>]
                                 | None \<Rightarrow> [])
                            | None \<Rightarrow> []) steps)"
  by (induction steps arbitrary: acc) (auto split: option.splits)

text \<open>
  C4 as stated fails: one step declares a highlight, no timestamp is supplied, and the
  highlight layer is empty.
\<close>

theorem highlight_without_timestamp_counterexample:
  "(case assembleProject (exampleEnv ''u1'' ''2024-05-01T10:00:00.000Z'')
          (exampleInput
             [exampleStep ''a'' Click ''Click the menu''
                (Some \<lparr>sh_x = 40, sh_y = 30, sh_type = Circle\<rparr>)]
             []) ''out'' of
      Inl e \<Rightarrow> False
    | Inr out \<Rightarrow>
        highlights (p_layers (project out)) = [] \<and>
        length (filter (\<lambda>s. as_highlight s \<noteq> None)
          [exampleStep ''a'' Click ''Click the menu''
             (Some \<lparr>sh_x = 40, sh_y = 30, sh_type = Circle\<rparr>)]) = 1)"
  by (simp add: assembleProject_eq fsFailure_def builtProject_def exampleEnv_def exampleInput_def
        exampleStep_def Let_def
        generateHighlights_def)

text \<open>
  C4 (as amended). A non-empty list of auto-detected highlights is the highlight layer as
  it is. Otherwise the layer holds, in step order, one highlight per step that declares a
  highlight and has a timestamp under its id, each 5 wide and 5 high; a step with a
  highlight and no timestamp contributes none.
\<close>

theorem assembleProject_highlights_auto_or_derived:
  "assembleProject env inp dir = Inr out \<Longrightarrow>
     (\<forall>hs. in_autoHighlights inp = Some hs \<and> hs \<noteq> [] \<longrightarrow>
         highlights (p_layers (project out)) = hs)
     \<and> (in_autoHighlights inp = None \<or> in_autoHighlights inp = Some [] \<longrightarrow>
         highlights (p_layers (project out)) =
           concat (map (\<lambda>s. case as_highlight s of
                        Some h \<Rightarrow>
                          (case findTimestamp (in_timestamps inp) (as_id s) of
                             Some t \<Rightarrow>
                               [\<lparr>hl_id = ''highlight-'' @ as_id s,
                                 hl_start = startTime t, hl_end = endTime t,
                                 hl_x = sh_x h, hl_y = sh_y h,
                                 hl_width = Some 5, hl_height = Some 5,
                                 hl_type = sh_type h, hl_color = None, hl_label = None,
                                 hl_elementInfo = None, hl_translations = None,
                                 hl_screenshotFile = None\<rparr>]
                           | None \<Rightarrow> [])
                      | None \<Rightarrow> []) (in_steps inp))
         \<and> length (highlights (p_layers (project out))) =
             length (filter (\<lambda>s. as_highlight s \<noteq> None \<and>
                               findTimestamp (in_timestamps inp) (as_id s) \<noteq> None)
                       (in_steps inp))
         \<and> (\<forall>e\<in>set (highlights (p_layers (project out))).
               hl_width e = Some 5 \<and> hl_height e = Some 5))"
proof (intro conjI allI impI)
  assume ok: "assembleProject env inp dir = Inr out"
  note H = assembleProject_highlights [OF ok]
  show "highlights (p_layers (project out)) = hs"
    if "in_autoHighlights inp = Some hs \<and> hs \<noteq> []" for hs
    using that H by simp
  let ?h = "\<lambda>s. case as_highlight s of
                Some h \<Rightarrow>
                  (case findTimestamp (in_timestamps inp) (as_id s) of
                     Some t \<Rightarrow>
                       [\<lparr>hl_id = ''highlight-'' @ as_id s,
                         hl_start = startTime t, hl_end = endTime t,
                         hl_x = sh_x h, hl_y = sh_y h,
                         hl_width = Some 5, hl_height = Some 5,
                         hl_type = sh_type h, hl_color = None, hl_label = None,
                         hl_elementInfo = None, hl_translations = None,
                         hl_screenshotFile = None\<rparr>]
                   | None \<Rightarrow> [])
              | None \<Rightarrow> []"
  assume "in_autoHighlights inp = None \<or> in_autoHighlights inp = Some []"
  with H have g: "highlights (p_layers (project out)) =
      generateHighlights (in_steps inp) (in_timestamps inp)"
    by auto
  then show c: "highlights (p_layers (project out)) = concat (map ?h (in_steps inp))"
    by (simp add: generateHighlights_def highlightsLoop_concat)
  have "length (concat (map ?h steps)) =
      length (filter (\<lambda>s. as_highlight s \<noteq> None \<and>
                               findTimestamp (in_timestamps inp) (as_id s) \<noteq> None) steps)"
    for steps :: "AutomationStep list"
    by (induction steps) (auto split: option.splits)
  then show "length (highlights (p_layers (project out))) =
             length (filter (\<lambda>s. as_highlight s \<noteq> None \<and>
                               findTimestamp (in_timestamps inp) (as_id s) \<noteq> None)
                       (in_steps inp))"
    by (simp only: c)
  show "\<forall>e\<in>set (highlights (p_layers (project out))).
               hl_width e = Some 5 \<and> hl_height e = Some 5"
    unfolding c by (auto split: option.splits)
qed

theorem assembleProject_highlights_auto_or_derived_witness:
  "\<not> isl (assembleProject (exampleEnv ''u1'' ''2024-05-01T10:00:00.000Z'')
       (exampleInput
          [exampleStep ''a'' Click ''Click the menu''
             (Some \<lparr>sh_x = 40, sh_y = 30, sh_type = Circle\<rparr>),
           exampleStep ''b'' Click ''Click the item''
             (Some \<lparr>sh_x = 60, sh_y = 35, sh_type = Pulse\<rparr>)]
          [\<lparr>stepId = ''a'', startTime = 0, endTime = 100\<rparr>]) ''out'')
   \<and> map (\<lambda>e. (hl_id e, hl_start e, hl_end e, hl_width e, hl_height e))
       (highlights (p_layers (project (projr
         (assembleProject (exampleEnv ''u1'' ''2024-05-01T10:00:00.000Z'')
            (exampleInput
               [exampleStep ''a'' Click ''Click the menu''
                  (Some \<lparr>sh_x = 40, sh_y = 30, sh_type = Circle\<rparr>),
                exampleStep ''b'' Click ''Click the item''
                  (Some \<lparr>sh_x = 60, sh_y = 35, sh_type = Pulse\<rparr>)]
               [\<lparr>stepId = ''a'', startTime = 0, endTime = 100\<rparr>]) ''out''))))) =
       [(''highlight-a'', 0, 100, Some 5, Some 5)]"
proof -
  let ?E = "exampleEnv ''u1'' ''2024-05-01T10:00:00.000Z''"
  let ?I = "exampleInput
          [exampleStep ''a'' Click ''Click the menu''
             (Some \<lparr>sh_x = 40, sh_y = 30, sh_type = Circle\<rparr>),
           exampleStep ''b'' Click ''Click the item''
             (Some \<lparr>sh_x = 60, sh_y = 35, sh_type = Pulse\<rparr>)]
          [\<lparr>stepId = ''a'', startTime = 0, endTime = 100\<rparr>]"
  let ?out = "projr (assembleProject ?E ?I ''out'')"
  have run: "\<not> isl (assembleProject ?E ?I ''out'')"
    by (simp add: assembleProject_eq fsFailure_def builtProject_def exampleEnv_def exampleInput_def Let_def)
  then have ok: "assembleProject ?E ?I ''out'' = Inr ?out"
    by (cases "assembleProject ?E ?I ''out''") simp_all
  have none: "in_autoHighlights ?I = None \<or> in_autoHighlights ?I = Some []"
    by (simp add: exampleInput_def)
  from assembleProject_highlights_auto_or_derived
         [OF ok, THEN conjunct2, rule_format, OF none, THEN conjunct1]
  have "highlights (p_layers (project ?out)) =
      [\<lparr>hl_id = ''highlight-a'', hl_start = 0, hl_end = 100, hl_x = 40, hl_y = 30,
        hl_width = Some 5, hl_height = Some 5, hl_type = Circle, hl_color = None,
        hl_label = None, hl_elementInfo = None, hl_translations = None,
        hl_screenshotFile = None\<rparr>]"
    by (simp add: exampleInput_def exampleStep_def)
  with run show ?thesis by simp
qed

section \<open>Determinism\<close>

text \<open>
  C5 as stated fails: two runs on the same input, seven seconds apart, give projects
  that differ in \<open>createdAt\<close>, so they are not equal up to their identity.
\<close>

theorem createdAt_differs_counterexample:
  "(case (assembleProject (exampleEnv ''u1'' ''2024-05-01T10:00:00.000Z'')
            (exampleInput [exampleStep ''a'' Click ''Click the menu'' None]
               [\<lparr>stepId = ''a'', startTime = 0, endTime = 100\<rparr>]) ''out'',
          assembleProject (exampleEnv ''u2'' ''2024-05-01T10:00:07.000Z'')
            (exampleInput [exampleStep ''a'' Click ''Click the menu'' None]
               [\<lparr>stepId = ''a'', startTime = 0, endTime = 100\<rparr>]) ''out'') of
      (Inr a, Inr b) \<Rightarrow>
        \<not> sameExceptId (project a) (project b) \<and>
        p_createdAt (project a) = ''2024-05-01T10:00:00.000Z'' \<and>
        p_createdAt (project b) = ''2024-05-01T10:00:07.000Z''
    | _ \<Rightarrow> False)"
  by (simp add: assembleProject_eq fsFailure_def builtProject_def exampleEnv_def exampleInput_def Let_def sameExceptId_def)

text \<open>
  C5 (as amended). Two successful runs on the same input, which see the same existence of
  the audio file, give projects that are equal except for the identity and \<open>createdAt\<close>,
  which is the clock's reading at the run.
\<close>

theorem assembleProject_deterministic_up_to_id_and_time:
  assumes "assembleProject e1 inp d1 = Inr o1"
    and "assembleProject e2 inp d2 = Inr o2"
    and "\<forall>p. in_audioPath inp = Some p \<longrightarrow> existsSync e1 p = existsSync e2 p"
  shows "project o2 = (project o1)\<lparr>p_id := uuid e2, p_createdAt := nowISO e2\<rparr>"
proof -
  have "builtProject e2 inp = (builtProject e1 inp)\<lparr>p_id := uuid e2, p_createdAt := nowISO e2\<rparr>"
    using assms(3) by (cases "in_audioPath inp") (simp_all add: builtProject_def)
  with assms(1,2) show ?thesis
    by (simp add: assembleProject_Inr(1))
qed

theorem assembleProject_deterministic_up_to_id_and_time_witness:
  "\<not> isl (assembleProject (exampleEnv ''u1'' ''2024-05-01T10:00:00.000Z'')
            (exampleInput [exampleStep ''a'' Click ''Click the menu'' None]
               [\<lparr>stepId = ''a'', startTime = 0, endTime = 100\<rparr>]) ''out'')
   \<and> \<not> isl (assembleProject (exampleEnv ''u2'' ''2024-05-01T10:00:07.000Z'')
            (exampleInput [exampleStep ''a'' Click ''Click the menu'' None]
               [\<lparr>stepId = ''a'', startTime = 0, endTime = 100\<rparr>]) ''out'')
   \<and> project (projr (assembleProject (exampleEnv ''u2'' ''2024-05-01T10:00:07.000Z'')
            (exampleInput [exampleStep ''a'' Click ''Click the menu'' None]
               [\<lparr>stepId = ''a'', startTime = 0, endTime = 100\<rparr>]) ''out'')) =
       (project (projr (assembleProject (exampleEnv ''u1'' ''2024-05-01T10:00:00.000Z'')
            (exampleInput [exampleStep ''a'' Click ''Click the menu'' None]
               [\<lparr>stepId = ''a'', startTime = 0, endTime = 100\<rparr>]) ''out'')))
         \<lparr>p_id := ''u2'', p_createdAt := ''2024-05-01T10:00:07.000Z''\<rparr>"
proof -
  let ?I = "exampleInput [exampleStep ''a'' Click ''Click the menu'' None]
               [\<lparr>stepId = ''a'', startTime = 0, endTime = 100\<rparr>]"
  let ?A = "assembleProject (exampleEnv ''u1'' ''2024-05-01T10:00:00.000Z'') ?I ''out''"
  let ?B = "assembleProject (exampleEnv ''u2'' ''2024-05-01T10:00:07.000Z'') ?I ''out''"
  have a: "\<not> isl ?A" and b: "\<not> isl ?B"
    by (simp_all add: assembleProject_eq fsFailure_def builtProject_def exampleEnv_def exampleInput_def Let_def)
  have oka: "?A = Inr (projr ?A)"
    using a by (cases ?A) simp_all
  have okb: "?B = Inr (projr ?B)"
    using b by (cases ?B) simp_all
  have au: "\<forall>p. in_audioPath ?I = Some p \<longrightarrow>
      existsSync (exampleEnv ''u1'' ''2024-05-01T10:00:00.000Z'') p =
      existsSync (exampleEnv ''u2'' ''2024-05-01T10:00:07.000Z'') p"
    by (simp add: exampleInput_def)
  from assembleProject_deterministic_up_to_id_and_time [OF oka okb au] a b
  show ?thesis by (simp add: exampleEnv_def)
qed

section \<open>Timestamps of unknown steps\<close>

lemma findTimestamp_orphan:
  "stepId t \<noteq> sid \<Longrightarrow> findTimestamp (ts1 @ t # ts2) sid = findTimestamp (ts1 @ ts2) sid"
  by (induction ts1) auto

lemma generateInteractiveSteps_timestamps:
  "generateInteractiveSteps steps ts = generateInteractiveSteps steps ts'"
  by (simp add: generateInteractiveSteps_zip)

lemma generateSubtitles_cong:
  assumes "\<And>s. s \<in> set steps \<Longrightarrow> findTimestamp ts (as_id s) = findTimestamp ts' (as_id s)"
  shows "generateSubtitles steps ts = generateSubtitles steps ts'"
  unfolding generateSubtitles_def subtitlesLoop_concat
  by (intro arg_cong [where f = concat] arg_cong2 [where f = append] map_cong refl)
     (simp add: assms)

lemma generateHighlights_cong:
  assumes "\<And>s. s \<in> set steps \<Longrightarrow> findTimestamp ts (as_id s) = findTimestamp ts' (as_id s)"
  shows "generateHighlights steps ts = generateHighlights steps ts'"
  unfolding generateHighlights_def highlightsLoop_concat
  by (intro arg_cong [where f = concat] arg_cong2 [where f = append] map_cong refl)
     (simp add: assms cong: option.case_cong)

lemma generateSummary_cong:
  assumes "\<And>s. s \<in> set steps \<Longrightarrow> findTimestamp ts (as_id s) = findTimestamp ts' (as_id s)"
  shows "generateSummary steps ts = generateSummary steps ts'"
  unfolding generateSummary_def
  by (simp add: assms cong: map_cong)

lemma builtProject_timestamps_cong:
  assumes same: "\<And>s. s \<in> set (in_steps inp) \<Longrightarrow>
      findTimestamp ts' (as_id s) = findTimestamp (in_timestamps inp) (as_id s)"
  shows "builtProject env (inp\<lparr>in_timestamps := ts'\<rparr>) =
           (builtProject env inp)
             \<lparr>p_duration := (if ts' = [] then 0 else endTime (last ts'))\<rparr>"
proof -
  note eqs =
    generateSubtitles_cong [of "in_steps inp", OF same]
    generateHighlights_cong [of "in_steps inp", OF same]
    generateSummary_cong [of "in_steps inp", OF same]
    generateInteractiveSteps_timestamps [of "in_steps inp" ts' "in_timestamps inp"]
  show ?thesis
    by (cases "in_autoHighlights inp")
       (simp_all add: builtProject_def eqs split del: if_split cong: if_cong)
qed

text \<open>
  C6 as stated fails: a timestamp for the unknown step \<open>ghost\<close> is compiled into a project,
  whose duration is even read from it.
\<close>

theorem orphan_timestamp_compiles_counterexample:
  "(case assembleProject (exampleEnv ''u1'' ''2024-05-01T10:00:00.000Z'')
          (exampleInput [exampleStep ''a'' Click ''Click the menu'' None]
             [\<lparr>stepId = ''a'', startTime = 0, endTime = 100\<rparr>,
              \<lparr>stepId = ''ghost'', startTime = 100, endTime = 500\<rparr>]) ''out'' of
      Inl e \<Rightarrow> False
    | Inr out \<Rightarrow>
        ''ghost'' \<notin> set (map as_id [exampleStep ''a'' Click ''Click the menu'' None]) \<and>
        p_duration (project out) = 500 \<and>
        map sub_id (subtitles (p_layers (project out))) = [''subtitle-a''])"
  by (simp add: assembleProject_eq fsFailure_def builtProject_def exampleEnv_def exampleInput_def
        exampleStep_def Let_def
        generateSubtitles_def)

text \<open>
  C6 (as amended). A timestamp whose \<open>stepId\<close> is the id of no step does not make
  compilation fail: the run with it fails exactly when the run without it fails, and
  with the same exception. Such a timestamp is ignored by every layer: when the run
  succeeds, the run without it returns the same output, the duration apart (which is
  read from the last timestamp).
\<close>

theorem orphan_timestamp_ignored:
  assumes "stepId t \<notin> set (map as_id (in_steps inp))"
    and "in_timestamps inp = ts1 @ t # ts2"
  shows "assembleProject env (inp\<lparr>in_timestamps := ts1 @ ts2\<rparr>) dir =
           (case assembleProject env inp dir of
              Inl e \<Rightarrow> Inl e
            | Inr out \<Rightarrow>
                Inr (out\<lparr>project := (project out)
                       \<lparr>p_duration :=
                          (if ts1 @ ts2 = [] then 0 else endTime (last (ts1 @ ts2)))\<rparr>\<rparr>))"
proof -
  have "findTimestamp (ts1 @ ts2) (as_id s) = findTimestamp (in_timestamps inp) (as_id s)"
    if "s \<in> set (in_steps inp)" for s
    using that assms by (simp add: findTimestamp_orphan image_iff)
  then have "builtProject env (inp\<lparr>in_timestamps := ts1 @ ts2\<rparr>) =
      (builtProject env inp)
        \<lparr>p_duration := (if ts1 @ ts2 = [] then 0 else endTime (last (ts1 @ ts2)))\<rparr>"
    by (rule builtProject_timestamps_cong)
  then show ?thesis
    by (cases "fsFailure env inp dir") (simp_all add: assembleProject_eq)
qed

theorem orphan_timestamp_ignored_witness:
  "''ghost'' \<notin> set (map as_id [exampleStep ''a'' Click ''Click the menu'' None])
   \<and> \<not> isl (assembleProject (exampleEnv ''u1'' ''2024-05-01T10:00:00.000Z'')
         (exampleInput [exampleStep ''a'' Click ''Click the menu'' None]
            [\<lparr>stepId = ''a'', startTime = 0, endTime = 100\<rparr>,
             \<lparr>stepId = ''ghost'', startTime = 100, endTime = 500\<rparr>]) ''out'')
   \<and> assembleProject (exampleEnv ''u1'' ''2024-05-01T10:00:00.000Z'')
         (exampleInput [exampleStep ''a'' Click ''Click the menu'' None]
            [\<lparr>stepId = ''a'', startTime = 0, endTime = 100\<rparr>]) ''out'' =
       Inr ((projr (assembleProject (exampleEnv ''u1'' ''2024-05-01T10:00:00.000Z'')
               (exampleInput [exampleStep ''a'' Click ''Click the menu'' None]
                  [\<lparr>stepId = ''a'', startTime = 0, endTime = 100\<rparr>,
                   \<lparr>stepId = ''ghost'', startTime = 100, endTime = 500\<rparr>]) ''out''))
            \<lparr>project :=
               (project (projr (assembleProject (exampleEnv ''u1'' ''2024-05-01T10:00:00.000Z'')
                  (exampleInput [exampleStep ''a'' Click ''Click the menu'' None]
                     [\<lparr>stepId = ''a'', startTime = 0, endTime = 100\<rparr>,
                      \<lparr>stepId = ''ghost'', startTime = 100, endTime = 500\<rparr>]) ''out'')))
               \<lparr>p_duration := 100\<rparr>\<rparr>)"
proof -
  let ?E = "exampleEnv ''u1'' ''2024-05-01T10:00:00.000Z''"
  let ?a = "exampleStep ''a'' Click ''Click the menu'' None"
  let ?ta = "\<lparr>stepId = ''a'', startTime = 0, endTime = 100\<rparr>"
  let ?g = "\<lparr>stepId = ''ghost'', startTime = 100, endTime = 500\<rparr>"
  let ?I = "exampleInput [?a] [?ta, ?g]"
  let ?A = "assembleProject ?E ?I ''out''"
  have orphan: "stepId ?g \<notin> set (map as_id (in_steps ?I))"
    by (simp add: exampleInput_def exampleStep_def)
  have ts: "in_timestamps ?I = [?ta] @ ?g # []"
    by (simp add: exampleInput_def)
  have run: "\<not> isl ?A"
    by (simp add: assembleProject_eq fsFailure_def builtProject_def exampleEnv_def exampleInput_def Let_def)
  then have ok: "?A = Inr (projr ?A)"
    by (cases ?A) simp_all
  have I': "?I\<lparr>in_timestamps := [?ta] @ []\<rparr> = exampleInput [?a] [?ta]"
    by (simp add: exampleInput_def)
  have "assembleProject ?E (?I\<lparr>in_timestamps := [?ta] @ []\<rparr>) ''out'' =
      Inr ((projr ?A)\<lparr>project := (project (projr ?A))
             \<lparr>p_duration :=
                (if [?ta] @ [] = [] then 0 else endTime (last ([?ta] @ [])))\<rparr>\<rparr>)"
    using orphan_timestamp_ignored [OF orphan ts, of ?E "''out''"] run
    by (cases ?A) simp_all
  then have "assembleProject ?E (exampleInput [?a] [?ta]) ''out'' =
      Inr ((projr ?A)\<lparr>project := (project (projr ?A))\<lparr>p_duration := 100\<rparr>\<rparr>)"
    unfolding I' by simp
  with run show ?thesis
    by (simp add: exampleStep_def)
qed

section \<open>Languages\<close>

text \<open>
  C7 as stated fails: an input that supplies the default language \<open>he\<close> and no list of
  available languages is compiled into a project with \<open>he\<close> and \<open>[en]\<close>.
\<close>

theorem default_language_not_available_counterexample:
  "(case assembleProject (exampleEnv ''u1'' ''2024-05-01T10:00:00.000Z'')
          ((exampleInput [] [])\<lparr>in_defaultLanguage := Some ''he''\<rparr>) ''out'' of
      Inl e \<Rightarrow> False
    | Inr out \<Rightarrow>
        p_defaultLanguage (project out) = ''he'' \<and>
        p_availableLanguages (project out) = [''en''] \<and>
        p_defaultLanguage (project out) \<notin> set (p_availableLanguages (project out)))"
  by (simp add: assembleProject_eq fsFailure_def builtProject_def exampleEnv_def exampleInput_def Let_def)

text \<open>
  C7 (as amended). The project's default language is the one supplied, or \<open>en\<close> when none
  (or the empty string) is; its available languages are the list supplied, or \<open>[en]\<close>
  when none is. So the default language is among the available ones when the input
  supplies neither, and when it supplies both and they satisfy it; the compiler does not
  check.
\<close>

theorem assembleProject_languages_passed_through:
  "assembleProject env inp dir = Inr out \<Longrightarrow>
     p_defaultLanguage (project out) =
       (case in_defaultLanguage inp of
          Some l \<Rightarrow> if l \<noteq> [] then l else ''en'' | None \<Rightarrow> ''en'')
     \<and> p_availableLanguages (project out) =
         (case in_availableLanguages inp of Some ls \<Rightarrow> ls | None \<Rightarrow> [''en''])
     \<and> ((in_defaultLanguage inp = None \<or> in_defaultLanguage inp = Some []) \<and>
         in_availableLanguages inp = None \<longrightarrow>
           p_defaultLanguage (project out) \<in> set (p_availableLanguages (project out)))
     \<and> (\<forall>l ls. in_defaultLanguage inp = Some l \<and> l \<noteq> [] \<and>
                in_availableLanguages inp = Some ls \<and> l \<in> set ls \<longrightarrow>
           p_defaultLanguage (project out) \<in> set (p_availableLanguages (project out)))"
  by (auto simp: assembleProject_languages)

theorem assembleProject_languages_passed_through_witness:
  "\<not> isl (assembleProject (exampleEnv ''u1'' ''2024-05-01T10:00:00.000Z'')
       ((exampleInput [] [])
          \<lparr>in_defaultLanguage := Some ''he'',
           in_availableLanguages := Some [''he'', ''en'', ''ar'']\<rparr>) ''out'')
   \<and> p_defaultLanguage (project (projr
         (assembleProject (exampleEnv ''u1'' ''2024-05-01T10:00:00.000Z'')
            ((exampleInput [] [])
               \<lparr>in_defaultLanguage := Some ''he'',
                in_availableLanguages := Some [''he'', ''en'', ''ar'']\<rparr>) ''out''))) = ''he''
   \<and> p_defaultLanguage (project (projr
         (assembleProject (exampleEnv ''u1'' ''2024-05-01T10:00:00.000Z'')
            ((exampleInput [] [])
               \<lparr>in_defaultLanguage := Some ''he'',
                in_availableLanguages := Some [''he'', ''en'', ''ar'']\<rparr>) ''out'')))
       \<in> set (p_availableLanguages (project (projr
         (assembleProject (exampleEnv ''u1'' ''2024-05-01T10:00:00.000Z'')
            ((exampleInput [] [])
               \<lparr>in_defaultLanguage := Some ''he'',
                in_availableLanguages := Some [''he'', ''en'', ''ar'']\<rparr>) ''out''))))"
proof -
  let ?I = "(exampleInput [] [])
          \<lparr>in_defaultLanguage := Some ''he'',
           in_availableLanguages := Some [''he'', ''en'', ''ar'']\<rparr>"
  let ?A = "assembleProject (exampleEnv ''u1'' ''2024-05-01T10:00:00.000Z'') ?I ''out''"
  have run: "\<not> isl ?A"
    by (simp add: assembleProject_eq fsFailure_def builtProject_def exampleEnv_def exampleInput_def Let_def)
  then have ok: "?A = Inr (projr ?A)"
    by (cases ?A) simp_all
  note T = assembleProject_languages_passed_through [OF ok]
  have "p_defaultLanguage (project (projr ?A)) = ''he''"
    using T [THEN conjunct1] by (simp add: exampleInput_def)
  moreover have "p_defaultLanguage (project (projr ?A))
      \<in> set (p_availableLanguages (project (projr ?A)))"
    by (rule T [THEN conjunct2, THEN conjunct2, THEN conjunct2, rule_format,
                of "''he''" "[''he'', ''en'', ''ar'']"])
       (simp add: exampleInput_def)
  ultimately show ?thesis using run by simp
qed

section \<open>Hit-test\<close>

text \<open>
  C8. For the target at (50, 50) of size 10 by 8 with a tolerance of 15 pixels on a 1280
  by 720 viewport, the pointer (55, 54) is a hit and (70, 70) is not. The corners of the
  rectangle widened by the tolerance are hits, a point just right of it is not; and for
  every target and viewport a point of the widened rectangle that lies on its boundary
  is a hit.
\<close>

theorem hitTest_examples_closed_boundary:
  "hitTest \<lparr>ht_x = 50, ht_y = 50, ht_width = 10, ht_height = 8, ht_tolerancePx = 15\<rparr>
      \<lparr>vp_width = 1280, vp_height = 720\<rparr> 55 54
   \<and> \<not> hitTest \<lparr>ht_x = 50, ht_y = 50, ht_width = 10, ht_height = 8, ht_tolerancePx = 15\<rparr>
      \<lparr>vp_width = 1280, vp_height = 720\<rparr> 70 70
   \<and> hitTest \<lparr>ht_x = 50, ht_y = 50, ht_width = 10, ht_height = 8, ht_tolerancePx = 15\<rparr>
      \<lparr>vp_width = 1280, vp_height = 720\<rparr> (50 - 75 / 64) (50 - 25 / 12)
   \<and> hitTest \<lparr>ht_x = 50, ht_y = 50, ht_width = 10, ht_height = 8, ht_tolerancePx = 15\<rparr>
      \<lparr>vp_width = 1280, vp_height = 720\<rparr> (60 + 75 / 64) (58 + 25 / 12)
   \<and> \<not> hitTest \<lparr>ht_x = 50, ht_y = 50, ht_width = 10, ht_height = 8, ht_tolerancePx = 15\<rparr>
      \<lparr>vp_width = 1280, vp_height = 720\<rparr> (60 + 76 / 64) 54
   \<and> (ht_x t - ht_tolerancePx t / vp_width vp * 100 \<le> px \<and>
       px \<le> ht_x t + ht_width t + ht_tolerancePx t / vp_width vp * 100 \<and>
       ht_y t - ht_tolerancePx t / vp_height vp * 100 \<le> py \<and>
       py \<le> ht_y t + ht_height t + ht_tolerancePx t / vp_height vp * 100 \<and>
       (px = ht_x t - ht_tolerancePx t / vp_width vp * 100 \<or>
        px = ht_x t + ht_width t + ht_tolerancePx t / vp_width vp * 100 \<or>
        py = ht_y t - ht_tolerancePx t / vp_height vp * 100 \<or>
        py = ht_y t + ht_height t + ht_tolerancePx t / vp_height vp * 100)
       \<longrightarrow> hitTest t vp px py)"
  by (simp add: hitTest_def Let_def)

theorem hitTest_examples_closed_boundary_witness:
  "hitTest \<lparr>ht_x = 50, ht_y = 50, ht_width = 10, ht_height = 8, ht_tolerancePx = 15\<rparr>
      \<lparr>vp_width = 1280, vp_height = 720\<rparr> (50 - 75 / 64) 54"
proof -
  let ?t = "\<lparr>ht_x = 50, ht_y = 50, ht_width = 10, ht_height = 8, ht_tolerancePx = 15\<rparr>"
  let ?v = "\<lparr>vp_width = 1280, vp_height = 720\<rparr>"
  have "hitTest ?t ?v (ht_x ?t - ht_tolerancePx ?t / vp_width ?v * 100) 54"
    by (rule hitTest_examples_closed_boundary
          [of ?t ?v _ 54, THEN conjunct2, THEN conjunct2, THEN conjunct2, THEN conjunct2,
           THEN conjunct2, rule_format]) simp
  then show ?thesis by simp
qed

section \<open>Field-name inference\<close>

lemma truthy_simps [simp]: "truthy None = False" "truthy (Some s) = (s \<noteq> [])"
  by (simp_all add: truthy_def)

lemma find_snoc:
  "List.find P (xs @ [x]) =
     (case List.find P xs of Some y \<Rightarrow> Some y | None \<Rightarrow> if P x then Some x else None)"
  by (induction xs) auto

lemma find_truthy: "List.find truthy cs = Some c \<Longrightarrow> truthy c"
  by (induction cs) (auto split: if_splits)

lemma firstSoFar_step:
  assumes "firstSoFar cs f"
    and "truthy f \<Longrightarrow> f' = f"
    and "\<not> truthy f \<Longrightarrow> truthy c \<Longrightarrow> f' = c"
    and "\<not> truthy f \<Longrightarrow> \<not> truthy c \<Longrightarrow> \<not> truthy f'"
  shows "firstSoFar (cs @ [c]) f'"
proof (cases "List.find truthy cs")
  case None
  with assms show ?thesis
    by (auto simp: firstSoFar_def find_snoc)
next
  case (Some y)
  then have "truthy y" by (rule find_truthy)
  with Some assms show ?thesis
    by (auto simp: firstSoFar_def find_snoc)
qed

lemma firstSoFar_attribute:
  "firstSoFar cs f \<Longrightarrow> firstSoFar (cs @ [el_getAttribute el a]) (attributeRule el a f)"
  by (erule firstSoFar_step) (auto simp: attributeRule_def)

lemma firstSoFar_candidates:
  "firstSoFar (candidates el)
     (attributeRule el ''value'' (attributeRule el ''alt'' (textRule el
       (attributeRule el ''name'' (attributeRule el ''title'' (attributeRule el ''aria-label''
         (attributeRule el ''placeholder'' (parentLabelRule el (labelForRule el None)))))))))"
proof -
  have 0: "firstSoFar [] None"
    by (simp add: firstSoFar_def)
  have 1: "firstSoFar ([] @ [candidates el ! 0]) (labelForRule el None)"
    by (rule firstSoFar_step [OF 0])
       (auto simp: labelForRule_def candidates_def split: option.splits)
  have 2: "firstSoFar (([] @ [candidates el ! 0]) @ [candidates el ! 1])
             (parentLabelRule el (labelForRule el None))"
    by (rule firstSoFar_step [OF 1])
       (auto simp: parentLabelRule_def candidates_def Let_def split: option.splits)
  note 3 = firstSoFar_attribute [OF 2, where el = el and a = "''placeholder''"]
  note 4 = firstSoFar_attribute [OF 3, where el = el and a = "''aria-label''"]
  note 5 = firstSoFar_attribute [OF 4, where el = el and a = "''title''"]
  note 6 = firstSoFar_attribute [OF 5, where el = el and a = "''name''"]
  have 7: "firstSoFar ((((((([] @ [candidates el ! 0]) @ [candidates el ! 1])
              @ [el_getAttribute el ''placeholder'']) @ [el_getAttribute el ''aria-label''])
              @ [el_getAttribute el ''title'']) @ [el_getAttribute el ''name''])
              @ [map_option trim (el_textContent el)])
            (textRule el
       (attributeRule el ''name'' (attributeRule el ''title'' (attributeRule el ''aria-label''
         (attributeRule el ''placeholder'' (parentLabelRule el (labelForRule el None)))))))"
    by (rule firstSoFar_step [OF 6]; cases "el_textContent el")
       (auto simp: textRule_def trim_def)
  note 8 = firstSoFar_attribute [OF 7, where el = el and a = "''alt''"]
  note 9 = firstSoFar_attribute [OF 8, where el = el and a = "''value''"]
  then show ?thesis
    by (simp add: candidates_def)
qed

lemma inferFieldName_first:
  "inferFieldName el =
    (case List.find truthy (candidates el) of
       Some (Some n) \<Rightarrow> if length n < 100 then Some n else Some (fallbackName el)
     | _ \<Rightarrow> Some (fallbackName el))"
proof (cases "List.find truthy (candidates el)")
  case None
  with firstSoFar_candidates [of el] show ?thesis
    by (auto simp: inferFieldName_def firstSoFar_def fallbackRule_def truthy_def split: option.splits)
next
  case (Some c)
  then have "truthy c" by (rule find_truthy)
  with Some firstSoFar_candidates [of el] show ?thesis
    by (auto simp: inferFieldName_def firstSoFar_def fallbackRule_def split: option.splits)
qed

lemma toLowerCase_Nil_iff [simp]: "toLowerCase s = [] \<longleftrightarrow> s = []"
  by (simp add: toLowerCase_def)

lemma fallbackName_Nil_iff [simp]: "el_tagName el \<noteq> [] \<Longrightarrow> fallbackName el \<noteq> []"
  by (simp add: fallbackName_def Let_def)

text \<open>
  C9 as stated fails: for an \<open>input\<close> whose placeholder has 100 characters the first
  applicable rule yields the placeholder, and the inferred name is the fallback \<open>input\<close>.
\<close>

theorem long_name_falls_back_counterexample:
  "ev_fieldName (evaluateInfo
       (exampleElem (\<lambda>a. if a = ''placeholder'' then Some (replicate 100 CHR ''x'') else None)
          None) ''click'') = ''input''
   \<and> specFieldName
       (exampleElem (\<lambda>a. if a = ''placeholder'' then Some (replicate 100 CHR ''x'') else None)
          None) = replicate 100 CHR ''x''"
  by code_simp

text \<open>
  C9 (as amended). The field name is the first non-empty name among: label for the id,
  enclosing label, placeholder, aria-label, title, name, element text, alt, value,
  provided it has fewer than 100 code units; when there is none, or the first has 100 or
  more, it is the tag-name-based fallback (\<open>unknown\<close> should that be empty). It agrees
  with the rule as specified whenever the first name found is shorter than 100.
\<close>

theorem fieldName_first_rule_or_fallback:
  "ev_fieldName (evaluateInfo el act) =
     (case List.find truthy (candidates el) of
        Some (Some n) \<Rightarrow>
          if length n < 100 then n
          else if fallbackName el = [] then ''unknown'' else fallbackName el
      | _ \<Rightarrow> if fallbackName el = [] then ''unknown'' else fallbackName el)
   \<and> ((\<forall>n. List.find truthy (candidates el) = Some (Some n) \<longrightarrow> length n < 100) \<and>
       el_tagName el \<noteq> [] \<longrightarrow>
         ev_fieldName (evaluateInfo el act) = specFieldName el)"
proof (cases "List.find truthy (candidates el)")
  case None
  then show ?thesis
    by (auto simp: evaluateInfo_def inferFieldName_first specFieldName_def Let_def)
next
  case (Some c)
  then have "truthy c" by (rule find_truthy)
  then obtain n where c: "c = Some n" "n \<noteq> []"
    by (cases c) simp_all
  with Some show ?thesis
    by (auto simp: evaluateInfo_def inferFieldName_first specFieldName_def Let_def)
qed

theorem fieldName_first_rule_or_fallback_witness:
  "ev_fieldName (evaluateInfo
       (exampleElem (\<lambda>a. if a = ''placeholder'' then Some ''Email''
                          else if a = ''name'' then Some ''user_email'' else None)
          None) ''type'') = ''Email''
   \<and> specFieldName
       (exampleElem (\<lambda>a. if a = ''placeholder'' then Some ''Email''
                          else if a = ''name'' then Some ''user_email'' else None)
          None) = ''Email''"
proof -
  let ?el = "exampleElem (\<lambda>a. if a = ''placeholder'' then Some ''Email''
                          else if a = ''name'' then Some ''user_email'' else None) None"
  have f: "List.find truthy (candidates ?el) = Some (Some ''Email'')"
    by (simp add: candidates_def exampleElem_def)
  have "ev_fieldName (evaluateInfo ?el ''type'') = specFieldName ?el"
    by (rule fieldName_first_rule_or_fallback [THEN conjunct2, rule_format])
       (simp add: f, simp add: exampleElem_def)
  moreover have "specFieldName ?el = ''Email''"
    by (simp add: specFieldName_def f)
  ultimately show ?thesis by simp
qed

section \<open>Step deletion keeps the order dense\<close>

lemma reorderLoop_length [simp]: "length (reorderLoop xs i) = length xs"
  by (induction xs arbitrary: i) simp_all

lemma reorderLoop_orders: "map ts_order (reorderLoop xs i) = map int [i..<i + length xs]"
  by (induction xs arbitrary: i) (simp_all add: upt_conv_Cons del: upt_Suc)

lemma reorderLoop_erase:
  "map (\<lambda>s. s\<lparr>ts_order := 0\<rparr>) (reorderLoop xs i) = map (\<lambda>s. s\<lparr>ts_order := 0\<rparr>) xs"
  by (induction xs arbitrary: i) simp_all

lemma findIndex_SomeD:
  "findIndex P xs = Some i \<Longrightarrow> i < length xs \<and> P (xs ! i) \<and> (\<forall>j<i. \<not> P (xs ! j))"
proof (induction xs arbitrary: i)
  case Nil
  then show ?case by simp
next
  case (Cons x xs)
  show ?case
  proof (cases "P x")
    case True
    with Cons.prems show ?thesis by simp
  next
    case False
    with Cons.prems obtain k where k: "findIndex P xs = Some k" "i = Suc k"
      by auto
    from Cons.IH [OF k(1)] False k(2) show ?thesis
      by (auto simp: less_Suc_eq_0_disj)
  qed
qed

lemma findIndex_update:
  "findIndex P xs = Some k \<Longrightarrow> P y \<Longrightarrow> findIndex P (xs[k := y]) = Some k"
proof (induction xs arbitrary: k)
  case Nil
  then show ?case by simp
next
  case (Cons x xs)
  then show ?case
    by (cases k) (auto split: if_splits)
qed

text \<open>
  C10. When the delete-step request succeeds, the tutorial had a step with the given id,
  the first such step is the one removed, the steps that remain are the others in their
  old relative order and unchanged but for \<open>order\<close>, and the \<open>order\<close> of each is its index
  0 .. n-1 in the new list.
\<close>

theorem deleteStep_reorders:
  assumes "deleteStep now files pid tid sid = (Success200, files')"
  shows "\<exists>old i. stepsOf files pid tid = Some old \<and>
           findIndex (\<lambda>s. ts_id s = sid) old = Some i \<and> i < length old \<and>
           ts_id (old ! i) = sid \<and>
           (case stepsOf files' pid tid of
              None \<Rightarrow> False
            | Some new \<Rightarrow>
                length new + 1 = length old \<and>
                map ts_order new = map int [0..<length new] \<and>
                map (\<lambda>s. s\<lparr>ts_order := 0\<rparr>) new =
                  map (\<lambda>s. s\<lparr>ts_order := 0\<rparr>) (take i old @ drop (Suc i) old))"
proof -
  from assms obtain proj where p: "files pid = Some (Json proj)"
    by (auto simp: deleteStep_def split: option.splits stored.splits)
  from assms p obtain k where k: "findIndex (\<lambda>t. t_id t = tid) (sp_tutorials proj) = Some k"
    by (auto simp: deleteStep_def split: option.splits)
  let ?old = "t_steps (sp_tutorials proj ! k)"
  from assms p k obtain i where i: "findIndex (\<lambda>s. ts_id s = sid) ?old = Some i"
    by (auto simp: deleteStep_def Let_def split: option.splits)
  let ?new = "reorderLoop (splice1 i ?old) 0"
  let ?tut = "(sp_tutorials proj ! k)\<lparr>t_steps := ?new, t_updatedAt := now\<rparr>"
  from assms p k i have files': "files' = files(pid \<mapsto>
      Json (proj\<lparr>sp_tutorials := (sp_tutorials proj)[k := ?tut], sp_updatedAt := now\<rparr>))"
    by (simp add: deleteStep_def Let_def)
  from findIndex_SomeD [OF k] have kl: "k < length (sp_tutorials proj)"
    and kid: "t_id (sp_tutorials proj ! k) = tid"
    by simp_all
  from findIndex_SomeD [OF i] have il: "i < length ?old" and iid: "ts_id (?old ! i) = sid"
    by simp_all
  have k': "findIndex (\<lambda>t. t_id t = tid) ((sp_tutorials proj)[k := ?tut]) = Some k"
    using k by (rule findIndex_update) (simp add: kid)
  have old: "stepsOf files pid tid = Some ?old"
    by (simp add: stepsOf_def p k)
  have new: "stepsOf files' pid tid = Some ?new"
    by (simp add: stepsOf_def files' k' kl)
  have len: "length ?new + 1 = length ?old"
    using il by (simp add: splice1_def)
  have ord: "map ts_order ?new = map int [0..<length ?new]"
    by (simp add: reorderLoop_orders)
  have rest: "map (\<lambda>s. s\<lparr>ts_order := 0\<rparr>) ?new =
      map (\<lambda>s. s\<lparr>ts_order := 0\<rparr>) (take i ?old @ drop (Suc i) ?old)"
    by (simp only: reorderLoop_erase splice1_def)
  from old i il iid new len ord rest show ?thesis
    by (intro exI [of _ ?old] exI [of _ i]) simp
qed

theorem deleteStep_reorders_witness:
  "fst (deleteStep ''2024-05-01T10:00:00.000Z'' exampleStore ''p1'' ''t1'' ''b'') = Success200
   \<and> map_option (map (\<lambda>s. (ts_id s, ts_order s))) (stepsOf exampleStore ''p1'' ''t1'') =
       Some [(''a'', 0), (''b'', 1), (''c'', 2)]
   \<and> map_option (map (\<lambda>s. (ts_id s, ts_order s)))
        (stepsOf (snd (deleteStep ''2024-05-01T10:00:00.000Z'' exampleStore ''p1'' ''t1'' ''b''))
           ''p1'' ''t1'') =
       Some [(''a'', 0), (''c'', 1)]"
proof -
  let ?D = "deleteStep ''2024-05-01T10:00:00.000Z'' exampleStore ''p1'' ''t1'' ''b''"
  have run: "fst ?D = Success200"
    by (simp add: deleteStep_def exampleStore_def exampleTutorialStep_def Let_def splice1_def)
  then have ok: "?D = (Success200, snd ?D)"
    by (simp add: prod_eq_iff)
  have old: "stepsOf exampleStore ''p1'' ''t1'' =
      Some [exampleTutorialStep ''a'' 0, exampleTutorialStep ''b'' 1, exampleTutorialStep ''c'' 2]"
    by (simp add: stepsOf_def exampleStore_def)
  from deleteStep_reorders [OF ok] old
  obtain new where new: "stepsOf (snd ?D) ''p1'' ''t1'' = Some new"
    and ord: "map ts_order new = map int [0..<length new]"
    and len: "length new + 1 = 3"
    and rest: "map (\<lambda>s. s\<lparr>ts_order := 0\<rparr>) new =
      map (\<lambda>s. s\<lparr>ts_order := 0\<rparr>) [exampleTutorialStep ''a'' 0, exampleTutorialStep ''c'' 2]"
    by (auto simp: exampleTutorialStep_def split: option.splits)
  from len obtain x y where xy: "new = [x, y]"
    by (cases new; cases "tl new") auto
  from rest xy have "ts_id x = ''a''" "ts_id y = ''c''"
    by (auto simp: exampleTutorialStep_def dest: arg_cong [where f = ts_id])
  moreover from ord xy have "ts_order x = 0" "ts_order y = 1"
    by (simp_all add: upt_rec)
  ultimately show ?thesis
    using run old new xy by (simp add: exampleTutorialStep_def)
qed

end
